theory Spec2Isabelle
  imports Complex_Main "HOL-Library.Sublist" "HOL-Library.Char_ord" "HOL-Library.List_Lexorder"
begin

section \<open>JavaScript values\<close>

text \<open>
  The program is JavaScript. Its numbers are modelled as real numbers plus \<open>NaN\<close>; rounding
  and the infinities are not modelled. A numeric field that is missing (\<open>undefined\<close>)
  behaves like \<open>NaN\<close> in every place the modelled code reads it (arithmetic gives \<open>NaN\<close>,
  comparisons are false, the value is falsy), so \<open>NaN\<close> stands for it too.
\<close>

datatype jsnum = Num real | NaN

datatype jsval = JNumber jsnum | JString string

datatype error = TypeError

fun truthy :: "jsnum \<Rightarrow> bool" where
  "truthy (Num x) = (x \<noteq> 0)"
| "truthy NaN = False"

fun jlift :: "(real \<Rightarrow> real) \<Rightarrow> jsnum \<Rightarrow> jsnum" where
  "jlift f (Num x) = Num (f x)"
| "jlift f NaN = NaN"

fun jlift2 :: "(real \<Rightarrow> real \<Rightarrow> real) \<Rightarrow> jsnum \<Rightarrow> jsnum \<Rightarrow> jsnum" where
  "jlift2 f (Num x) (Num y) = Num (f x y)"
| "jlift2 f _ _ = NaN"

definition jadd :: "jsnum \<Rightarrow> jsnum \<Rightarrow> jsnum" where
  "jadd = jlift2 (+)"

definition jsub :: "jsnum \<Rightarrow> jsnum \<Rightarrow> jsnum" where
  "jsub = jlift2 (-)"

definition jmul :: "jsnum \<Rightarrow> jsnum \<Rightarrow> jsnum" where
  "jmul = jlift2 (*)"

definition jmin :: "jsnum \<Rightarrow> jsnum \<Rightarrow> jsnum" where
  \<comment> \<open>\<open>Math.min\<close>: \<open>NaN\<close> if either argument is\<close>
  "jmin = jlift2 min"

definition jmax :: "jsnum \<Rightarrow> jsnum \<Rightarrow> jsnum" where
  "jmax = jlift2 max"

fun jlt :: "jsnum \<Rightarrow> jsnum \<Rightarrow> bool" where
  "jlt (Num x) (Num y) = (x < y)"
| "jlt _ _ = False"

fun jle :: "jsnum \<Rightarrow> jsnum \<Rightarrow> bool" where
  "jle (Num x) (Num y) = (x \<le> y)"
| "jle _ _ = False"

definition jgt :: "jsnum \<Rightarrow> jsnum \<Rightarrow> bool" where
  "jgt a b = jlt b a"

definition jge :: "jsnum \<Rightarrow> jsnum \<Rightarrow> bool" where
  "jge a b = jle b a"

definition jor :: "jsnum \<Rightarrow> jsnum \<Rightarrow> jsnum" where
  \<comment> \<open>\<open>a || b\<close> on numbers\<close>
  "jor a b = (if truthy a then a else b)"

fun sort_by :: "('a \<Rightarrow> 'a \<Rightarrow> bool) \<Rightarrow> 'a list \<Rightarrow> 'a list" where
  \<comment> \<open>\<open>Array.prototype.sort\<close> (stable) with a comparator; \<open>before a b\<close> says the comparator
      is negative at \<open>(a, b)\<close>. The result is the stable sort where the comparator is a
      total preorder (no \<open>NaN\<close> keys).\<close>
  "sort_by before [] = []"
| "sort_by before (x # xs) =
     (let ys = sort_by before xs
      in takeWhile (\<lambda>y. before y x) ys @ x # dropWhile (\<lambda>y. before y x) ys)"

definition object_prototype_names :: "string list" where
  \<comment> \<open>the property names every plain object inherits from \<open>Object.prototype\<close>: \<open>k in obj\<close>
      is true for them and \<open>obj[k]\<close> is a function or an object, never a number or a
      string\<close>
  "object_prototype_names =
     [''constructor'', ''__defineGetter__'', ''__defineSetter__'', ''hasOwnProperty'',
      ''__lookupGetter__'', ''__lookupSetter__'', ''isPrototypeOf'', ''propertyIsEnumerable'',
      ''toString'', ''valueOf'', ''__proto__'', ''toLocaleString'']"

section \<open>Attention: \<open>src/consciousness/attention-mechanism.js\<close>\<close>

record attention_config =
  attentionSpan :: nat
  focusDecayRate :: real
  salienceThreshold :: real
  contextWindow :: nat
  attentionHeads :: nat

definition default_attention_config :: attention_config where
  "default_attention_config =
     \<lparr>attentionSpan = 7, focusDecayRate = 0.1, salienceThreshold = 0.3,
      contextWindow = 20, attentionHeads = 4\<rparr>"

record feature_weights =
  w_novelty :: real
  w_relevance :: real
  w_urgency :: real
  w_emotional :: real
  w_social :: real

definition initializeWeights :: feature_weights where
  "initializeWeights =
     \<lparr>w_novelty = 0.3, w_relevance = 0.25, w_urgency = 0.2, w_emotional = 0.15, w_social = 0.1\<rparr>"

text \<open>A stimulus: the fields the attention code reads; a missing field is \<open>None\<close>.\<close>

record stimulus =
  s_type :: "string option"
  s_source :: "string option"
  s_target :: "string option"
  s_category :: "string option"
  s_urgency :: "string option"
  s_emotional :: "(string \<times> jsval) list option"
  attentionWeight :: jsnum

record goal =
  g_type :: "string option"
  g_target :: "string option"
  g_category :: "string option"

record relationship =
  trust :: jsnum
  affection :: jsnum
  respect :: jsnum

record attention_context =
  c_goals :: "goal list option"
  c_relationships :: "(string \<Rightarrow> relationship option) option"

record attention_mechanism =
  am_config :: attention_config
  contextBuffer :: "stimulus list"
  weights :: feature_weights

definition calculateSimilarity :: "stimulus \<Rightarrow> stimulus \<Rightarrow> real" where
  "calculateSimilarity stim1 stim2 =
     (let (similarity, factors) = (0, 0::nat);
          (similarity, factors) =
             (if s_type stim1 = s_type stim2 then (similarity + 0.3, factors + 1)
              else (similarity, factors));
          (similarity, factors) =
             (if s_source stim1 = s_source stim2 then (similarity + 0.2, factors + 1)
              else (similarity, factors));
          (similarity, factors) =
             (if s_target stim1 = s_target stim2 then (similarity + 0.2, factors + 1)
              else (similarity, factors));
          (similarity, factors) =
             (if s_category stim1 = s_category stim2 then (similarity + 0.3, factors + 1)
              else (similarity, factors))
      in if factors > 0 then similarity / real factors else 0)"

definition calculateNovelty ::
  "attention_mechanism \<Rightarrow> stimulus option \<Rightarrow> attention_context option \<Rightarrow> real" where
  "calculateNovelty am stimulus context =
     (case (stimulus, context) of
        (Some stim, Some _) \<Rightarrow>
          fold (\<lambda>past novelty. min novelty (1 - calculateSimilarity stim past))
               (contextBuffer am) 1
      | _ \<Rightarrow> 0.5)"

fun goal_relevance :: "stimulus option \<Rightarrow> goal list \<Rightarrow> real \<Rightarrow> error + real" where
  "goal_relevance stimulus [] maxRelevance = Inr maxRelevance"
| "goal_relevance None (g # gs) maxRelevance = Inl TypeError"
| "goal_relevance (Some stim) (g # gs) maxRelevance =
     (let relevance = 0;
          relevance = (if s_type stim = g_type g then relevance + 0.5 else relevance);
          relevance = (if s_target stim = g_target g then relevance + 0.3 else relevance);
          relevance = (if s_category stim = g_category g then relevance + 0.2 else relevance)
      in goal_relevance (Some stim) gs (max maxRelevance relevance))"

definition calculateRelevance ::
  "stimulus option \<Rightarrow> attention_context option \<Rightarrow> error + real" where
  "calculateRelevance stimulus context =
     (case context of
        None \<Rightarrow> Inl TypeError
      | Some ctx \<Rightarrow>
          (case c_goals ctx of
             None \<Rightarrow> Inr 0.3
           | Some [] \<Rightarrow> Inr 0.3
           | Some gs \<Rightarrow> goal_relevance stimulus gs 0))"

definition urgencyMarkers :: "(string \<times> real) list" where
  "urgencyMarkers =
     [(''threat'', 1.0), (''danger'', 0.9), (''warning'', 0.7), (''opportunity'', 0.6),
      (''request'', 0.5), (''information'', 0.2)]"

definition calculateUrgency :: "stimulus option \<Rightarrow> error + jsnum" where
  \<comment> \<open>\<open>urgencyMarkers[stimulus.urgency] || 0.3\<close>. For an inherited property name the
      lookup gives a function or an object, which is truthy and is \<open>NaN\<close> in the
      arithmetic of the callers.\<close>
  "calculateUrgency stimulus =
     (case stimulus of
        None \<Rightarrow> Inl TypeError
      | Some stim \<Rightarrow>
          (case s_urgency stim of
             None \<Rightarrow> Inr (Num 0.3)
           | Some u \<Rightarrow>
               (case map_of urgencyMarkers u of
                  Some v \<Rightarrow> Inr (Num v)
                | None \<Rightarrow> if u \<in> set object_prototype_names then Inr NaN else Inr (Num 0.3))))"

fun intensity_loop :: "jsval list \<Rightarrow> jsnum \<times> nat \<Rightarrow> jsnum \<times> nat" where
  \<comment> \<open>the loop shared by both \<open>_calculateEmotionalIntensity\<close> functions: only values with
      \<open>typeof value === 'number'\<close> count\<close>
  "intensity_loop [] acc = acc"
| "intensity_loop (JNumber v # vs) (totalIntensity, cnt) =
     intensity_loop vs (jadd totalIntensity (jlift abs v), cnt + 1)"
| "intensity_loop (JString s # vs) acc = intensity_loop vs acc"

definition mean_intensity :: "jsval list \<Rightarrow> jsnum" where
  "mean_intensity vs =
     (let (totalIntensity, cnt) = intensity_loop vs (Num 0, 0)
      in if cnt > 0 then jmul totalIntensity (Num (1 / real cnt)) else Num 0)"

definition calculateEmotionalIntensity_stimulus :: "stimulus option \<Rightarrow> error + jsnum" where
  "calculateEmotionalIntensity_stimulus stimulus =
     (case stimulus of
        None \<Rightarrow> Inl TypeError
      | Some stim \<Rightarrow>
          (case s_emotional stim of
             None \<Rightarrow> Inr (Num 0)
           | Some emo \<Rightarrow> Inr (mean_intensity (map snd emo))))"

definition calculateSocialImportance ::
  "stimulus option \<Rightarrow> attention_context option \<Rightarrow> error + jsnum" where
  "calculateSocialImportance stimulus context =
     (case stimulus of
        None \<Rightarrow> Inl TypeError
      | Some stim \<Rightarrow>
          (case s_source stim of
             None \<Rightarrow> Inr (Num 0)
           | Some src \<Rightarrow>
               if src = [] then Inr (Num 0)
               else (case context of
                 None \<Rightarrow> Inl TypeError
               | Some ctx \<Rightarrow>
                   (case c_relationships ctx of
                      None \<Rightarrow> Inr (Num 0.3)
                    | Some rel \<Rightarrow>
                        (case rel src of
                           None \<Rightarrow> Inr (Num 0.3)
                         | Some r \<Rightarrow>
                             Inr (jmul (jadd (jadd (trust r) (affection r)) (respect r))
                                       (Num (1 / 3))))))))"

definition calculateSalience ::
  "attention_mechanism \<Rightarrow> stimulus option \<Rightarrow> attention_context option \<Rightarrow> error + jsnum" where
  "calculateSalience am stimulus context =
     (let salience = Num 0;
          salience = jadd salience
                       (Num (w_novelty (weights am) * calculateNovelty am stimulus context))
      in case calculateRelevance stimulus context of
           Inl e \<Rightarrow> Inl e
         | Inr relevance \<Rightarrow>
      (let salience = jadd salience (Num (w_relevance (weights am) * relevance))
       in case calculateUrgency stimulus of
            Inl e \<Rightarrow> Inl e
          | Inr urgency \<Rightarrow>
      (let salience = jadd salience (jmul (Num (w_urgency (weights am))) urgency)
       in case calculateEmotionalIntensity_stimulus stimulus of
            Inl e \<Rightarrow> Inl e
          | Inr emotional \<Rightarrow>
      (let salience = jadd salience (jmul (Num (w_emotional (weights am))) emotional)
       in case calculateSocialImportance stimulus context of
            Inl e \<Rightarrow> Inl e
          | Inr social \<Rightarrow>
      (let salience = jadd salience (jmul (Num (w_social (weights am))) social)
       in Inr (jmin (Num 1) (jmax (Num 0) salience)))))))"

subsection \<open>The per-agent instance and its focus inertia\<close>







section \<open>Memory: the \<open>MemoryBank\<close> and \<open>MemoryBankInstance\<close> classes\<close>

text \<open>
  Library functions of the JavaScript runtime that the memory code calls on values whose
  text form is not modelled: how a number is printed inside an id, \<open>JSON.stringify\<close> and
  \<open>toLowerCase\<close>. They are parameters of the model.
\<close>

record js_env =
  fmt_number :: "real \<Rightarrow> string"
  fmt_random :: "real \<Rightarrow> string"
  json_content :: "string \<Rightarrow> string"
  json_context :: "(string \<times> string) list \<Rightarrow> string"
  toLowerCase :: "string \<Rightarrow> string"

type_synonym addr = nat

type_synonym ident = "string option"

datatype assoc_kind = Temporal | Contextual

record association =
  targetId :: ident
  a_strength :: jsnum
  a_type :: assoc_kind

text \<open>
  A memory object. Objects live in a heap and are referred to by address, since the code
  keeps references to one object in several places and also makes copies. The last four
  fields exist only on the copies that \<open>query\<close> builds. Emotional contexts of memories
  hold numbers; the content is an opaque payload.
\<close>

record memory =
  m_id :: ident
  m_ownerId :: "string option"
  m_type :: "string option"
  m_category :: "string option"
  m_content :: "string option"
  m_context :: "(string \<times> string) list option"
  m_emotionalContext :: "(string \<times> jsnum) list option"
  m_emotionalImpact :: jsnum
  m_timestamp :: jsnum
  m_importance :: jsnum
  m_strength :: jsnum
  m_accessCount :: jsnum
  m_lastAccessed :: jsnum
  m_consolidated :: bool
  m_consolidatedAt :: jsnum
  m_persisted :: bool
  m_relevanceScore :: "jsnum option"
  m_associationStrength :: "jsnum option"
  m_associationType :: "assoc_kind option"
  m_relevance :: "jsnum option"

datatype category = Episodic | Semantic | Procedural | Emotional

definition categories :: "category list" where
  \<comment> \<open>\<open>Object.keys(this.memories)\<close>, in insertion order\<close>
  "categories = [Episodic, Semantic, Procedural, Emotional]"

definition parse_category :: "string \<Rightarrow> category option" where
  \<comment> \<open>\<open>this.memories[category]\<close>: \<open>undefined\<close> for any other string\<close>
  "parse_category c =
     (if c = ''episodic'' then Some Episodic
      else if c = ''semantic'' then Some Semantic
      else if c = ''procedural'' then Some Procedural
      else if c = ''emotional'' then Some Emotional
      else None)"

record memory_config =
  consolidationThreshold :: real
  forgettingRate :: real
  associationStrength :: real
  emotionalBoost :: real

definition default_memory_config :: memory_config where
  "default_memory_config =
     \<lparr>consolidationThreshold = 0.7, forgettingRate = 0.001, associationStrength = 0.3,
      emotionalBoost = 1.5\<rparr>"

text \<open>
  The state of one \<open>MemoryBankInstance\<close> together with the parts of its parent
  \<open>MemoryBank\<close> that the instance reads and writes (the indices, the consolidation queue
  and the counter of forgotten memories). A JavaScript \<open>Map\<close> is an association list in
  insertion order.
\<close>

record bank =
  ownerId :: string
  config :: memory_config
  heap :: "memory list"
  memories :: "category \<Rightarrow> (ident \<times> addr) list"
  workingMemory :: "addr list"
  maxWorkingMemory :: nat
  associations :: "(ident \<times> association list) list"
  totalMemories :: nat
  strongestMemory :: "addr option"
  oldestMemory :: "addr option"
  idx_temporal :: "(jsnum \<times> ident list) list"
  idx_contextual :: "(string \<times> ident list) list"
  idx_importance :: "(ident \<times> jsnum) list"
  consolidationQueue :: "addr list"
  forgottenMemories :: nat

definition deref :: "memory list \<Rightarrow> addr \<Rightarrow> memory option" where
  "deref h a = (if a < length h then Some (h ! a) else None)"

fun map_set :: "'k \<Rightarrow> 'v \<Rightarrow> ('k \<times> 'v) list \<Rightarrow> ('k \<times> 'v) list" where
  \<comment> \<open>\<open>Map.prototype.set\<close>: a present key keeps its place\<close>
  "map_set k v [] = [(k, v)]"
| "map_set k v ((k', v') # xs) =
     (if k = k' then (k, v) # xs else (k', v') # map_set k v xs)"

definition map_delete :: "'k \<Rightarrow> ('k \<times> 'v) list \<Rightarrow> ('k \<times> 'v) list" where
  "map_delete k xs = filter (\<lambda>kv. fst kv \<noteq> k) xs"

definition truthy_str :: "string option \<Rightarrow> bool" where
  "truthy_str x = (case x of None \<Rightarrow> False | Some s \<Rightarrow> s \<noteq> [])"

subsection \<open>Similarity of memories (\<open>MemoryBank\<close>)\<close>

fun compareContexts_loop ::
  "(string \<times> string) list \<Rightarrow> (string \<times> string) list \<Rightarrow> nat \<times> nat \<Rightarrow> nat \<times> nat" where
  \<comment> \<open>\<open>key in ctx2\<close> also holds for an inherited property name, whose value in \<open>ctx2\<close>
      is not a string and so differs from the value in \<open>ctx1\<close>\<close>
  "compareContexts_loop [] ctx2 acc = acc"
| "compareContexts_loop ((key, v) # rest) ctx2 (matches, tot) =
     (case map_of ctx2 key of
        None \<Rightarrow>
          if key \<in> set object_prototype_names
          then compareContexts_loop rest ctx2 (matches, tot + 1)
          else compareContexts_loop rest ctx2 (matches, tot)
      | Some v2 \<Rightarrow>
          compareContexts_loop rest ctx2 (if v = v2 then matches + 1 else matches, tot + 1))"

definition compareContexts :: "(string \<times> string) list \<Rightarrow> (string \<times> string) list \<Rightarrow> real" where
  "compareContexts ctx1 ctx2 =
     (let (matches, tot) = compareContexts_loop ctx1 ctx2 (0, 0)
      in if tot > 0 then real matches / real tot else 0)"

fun compareEmotions_loop ::
  "(string \<times> jsnum) list \<Rightarrow> (string \<times> jsnum) list \<Rightarrow> jsnum \<times> nat \<Rightarrow> jsnum \<times> nat" where
  \<comment> \<open>\<open>emotion in emo2\<close> also holds for an inherited property name, whose value in
      \<open>emo2\<close> is not a number: the difference is \<open>NaN\<close>\<close>
  "compareEmotions_loop [] emo2 acc = acc"
| "compareEmotions_loop ((emotion, v) # rest) emo2 (similarity, cnt) =
     (case map_of emo2 emotion of
        None \<Rightarrow>
          if emotion \<in> set object_prototype_names
          then compareEmotions_loop rest emo2 (jadd similarity (jsub (Num 1) NaN), cnt + 1)
          else compareEmotions_loop rest emo2 (similarity, cnt)
      | Some v2 \<Rightarrow>
          (let diff = jlift abs (jsub v v2)
           in compareEmotions_loop rest emo2 (jadd similarity (jsub (Num 1) diff), cnt + 1)))"

definition compareEmotions :: "(string \<times> jsnum) list \<Rightarrow> (string \<times> jsnum) list \<Rightarrow> jsnum" where
  "compareEmotions emo1 emo2 =
     (let (similarity, cnt) = compareEmotions_loop emo1 emo2 (Num 0, 0)
      in if cnt > 0 then jmul similarity (Num (1 / real cnt)) else Num 0)"

definition calculateSimilarity_memory :: "memory \<Rightarrow> memory \<Rightarrow> jsnum" where
  "calculateSimilarity_memory mem1 mem2 =
     (let (similarity, factors) = (Num 0, 0::nat);
          (similarity, factors) =
             (if m_type mem1 = m_type mem2 then (jadd similarity (Num 0.3), factors + 1)
              else (similarity, factors));
          (similarity, factors) =
             (case (m_context mem1, m_context mem2) of
                (Some ctx1, Some ctx2) \<Rightarrow>
                  (jadd similarity (Num (compareContexts ctx1 ctx2 * 0.3)), factors + 1)
              | _ \<Rightarrow> (similarity, factors));
          timeDiff = jlift abs (jsub (m_timestamp mem1) (m_timestamp mem2));
          temporalSim = jlift (\<lambda>d. exp (- d / (24 * 60 * 60 * 1000))) timeDiff;
          (similarity, factors) = (jadd similarity (jmul temporalSim (Num 0.2)), factors + 1);
          (similarity, factors) =
             (case (m_emotionalContext mem1, m_emotionalContext mem2) of
                (Some emo1, Some emo2) \<Rightarrow>
                  (jadd similarity (jmul (compareEmotions emo1 emo2) (Num 0.2)), factors + 1)
              | _ \<Rightarrow> (similarity, factors))
      in if factors > 0 then jmul similarity (Num (1 / real factors)) else Num 0)"

subsection \<open>\<open>store\<close> and its helpers\<close>

definition gen_id :: "js_env \<Rightarrow> string \<Rightarrow> real \<Rightarrow> real \<Rightarrow> string" where
  \<comment> \<open>the template string of \<open>store\<close>: owner, \<open>Date.now()\<close>, nine base-36 digits of
      \<open>Math.random()\<close>\<close>
  "gen_id env owner now rnd = owner @ ''_'' @ fmt_number env now @ ''_'' @ fmt_random env rnd"

definition categorizeMemory :: "memory \<Rightarrow> string" where
  "categorizeMemory memory =
     (if truthy_str (m_category memory) then the (m_category memory)
      else if m_type memory = Some ''interaction'' \<or> m_type memory = Some ''event''
        then ''episodic''
      else if m_type memory = Some ''knowledge'' \<or> m_type memory = Some ''fact''
        then ''semantic''
      else if m_type memory = Some ''skill'' \<or> m_type memory = Some ''procedure''
        then ''procedural''
      else if m_emotionalContext memory \<noteq> None \<and> truthy (m_emotionalImpact memory)
        then ''emotional''
      else ''episodic'')"

definition calculateEmotionalIntensity_memory :: "(string \<times> jsnum) list \<Rightarrow> jsnum" where
  "calculateEmotionalIntensity_memory emotions = mean_intensity (map (JNumber \<circ> snd) emotions)"

fun dedupe_by_id :: "memory list \<Rightarrow> ident list \<Rightarrow> addr list \<Rightarrow> addr list" where
  \<comment> \<open>the filter with the \<open>seen\<close> set in \<open>_updateWorkingMemory\<close>\<close>
  "dedupe_by_id h seen [] = []"
| "dedupe_by_id h seen (a # as) =
     (let i = (case deref h a of None \<Rightarrow> None | Some m \<Rightarrow> m_id m)
      in if i \<in> set seen then dedupe_by_id h seen as
         else a # dedupe_by_id h (i # seen) as)"

definition updateWorkingMemory :: "addr \<Rightarrow> bank \<Rightarrow> bank" where
  "updateWorkingMemory a s =
     (let wm = a # workingMemory s;
          wm = dedupe_by_id (heap s) [] wm;
          wm = (if length wm > maxWorkingMemory s then take (maxWorkingMemory s) wm else wm)
      in s\<lparr>workingMemory := wm\<rparr>)"

fun getMemoryById_in :: "(category \<Rightarrow> (ident \<times> addr) list) \<Rightarrow> category list \<Rightarrow> ident \<Rightarrow> addr option" where
  "getMemoryById_in mems [] i = None"
| "getMemoryById_in mems (c # cs) i =
     (case map_of (mems c) i of Some a \<Rightarrow> Some a | None \<Rightarrow> getMemoryById_in mems cs i)"

definition getMemoryById :: "bank \<Rightarrow> ident \<Rightarrow> addr option" where
  "getMemoryById s i = getMemoryById_in (memories s) categories i"

fun collect_ids :: "bank \<Rightarrow> ident list \<Rightarrow> (ident \<times> addr) list \<Rightarrow> (ident \<times> addr) list" where
  "collect_ids s [] results = results"
| "collect_ids s (i # ids) results =
     (case getMemoryById s i of
        None \<Rightarrow> collect_ids s ids results
      | Some a \<Rightarrow> collect_ids s ids (map_set i a results))"

fun queryByContext_loop ::
  "bank \<Rightarrow> (string \<times> string) list \<Rightarrow> (ident \<times> addr) list \<Rightarrow> (ident \<times> addr) list" where
  "queryByContext_loop s [] results = results"
| "queryByContext_loop s ((key, v) # rest) results =
     (let contextKey = key @ '':'' @ v;
          memoryIds = (case map_of (idx_contextual s) contextKey of None \<Rightarrow> [] | Some ids \<Rightarrow> ids)
      in queryByContext_loop s rest (collect_ids s memoryIds results))"

definition queryByContext :: "bank \<Rightarrow> (string \<times> string) list \<Rightarrow> addr list" where
  "queryByContext s context = map snd (queryByContext_loop s context [])"

definition findByContext :: "bank \<Rightarrow> (string \<times> string) list \<Rightarrow> nat \<Rightarrow> addr list" where
  "findByContext s context limit = take limit (queryByContext s context)"

fun temporal_associations :: "bank \<Rightarrow> memory \<Rightarrow> addr list \<Rightarrow> association list" where
  "temporal_associations s m [] = []"
| "temporal_associations s m (w # ws) =
     (case deref (heap s) w of
        None \<Rightarrow> temporal_associations s m ws
      | Some workingMem \<Rightarrow>
          (let similarity = calculateSimilarity_memory m workingMem
           in if jgt similarity (Num (associationStrength (config s)))
              then \<lparr>targetId = m_id workingMem, a_strength = similarity, a_type = Temporal\<rparr>
                   # temporal_associations s m ws
              else temporal_associations s m ws))"

fun contextual_associations :: "bank \<Rightarrow> memory \<Rightarrow> addr list \<Rightarrow> association list" where
  "contextual_associations s m [] = []"
| "contextual_associations s m (c # cs) =
     (case deref (heap s) c of
        None \<Rightarrow> contextual_associations s m cs
      | Some contextMem \<Rightarrow>
          if m_id contextMem \<noteq> m_id m
          then \<lparr>targetId = m_id contextMem, a_strength = Num 0.5, a_type = Contextual\<rparr>
               # contextual_associations s m cs
          else contextual_associations s m cs)"

fun reverse_associations ::
  "ident \<Rightarrow> association list \<Rightarrow> (ident \<times> association list) list \<Rightarrow> (ident \<times> association list) list" where
  "reverse_associations i [] assocs = assocs"
| "reverse_associations i (assoc # rest) assocs =
     (let reverseAssocs = (case map_of assocs (targetId assoc) of None \<Rightarrow> [] | Some l \<Rightarrow> l);
          reverseAssocs = reverseAssocs @
             [\<lparr>targetId = i, a_strength = a_strength assoc, a_type = a_type assoc\<rparr>]
      in reverse_associations i rest (map_set (targetId assoc) reverseAssocs assocs))"

definition createAssociations :: "addr \<Rightarrow> bank \<Rightarrow> bank" where
  \<comment> \<open>no edge targets the new memory itself (the working-memory loop skips position 0 of a
      list without duplicate ids, the context loop compares ids), so the reverse loop never
      pushes onto the list it is reading\<close>
  "createAssociations a s =
     (case deref (heap s) a of
        None \<Rightarrow> s
      | Some m \<Rightarrow>
          (let assocs = temporal_associations s m (tl (workingMemory s));
               assocs = (case m_context m of
                           None \<Rightarrow> assocs
                         | Some ctx \<Rightarrow> assocs @ contextual_associations s m (findByContext s ctx 5))
           in s\<lparr>associations :=
                  reverse_associations (m_id m) assocs
                    (map_set (m_id m) assocs (associations s))\<rparr>))"

fun contextual_index_loop ::
  "ident \<Rightarrow> (string \<times> string) list \<Rightarrow> (string \<times> ident list) list \<Rightarrow> (string \<times> ident list) list" where
  "contextual_index_loop i [] idx = idx"
| "contextual_index_loop i ((key, v) # rest) idx =
     (let contextKey = key @ '':'' @ v;
          ids = (case map_of idx contextKey of None \<Rightarrow> [] | Some l \<Rightarrow> l)
      in contextual_index_loop i rest (map_set contextKey (ids @ [i]) idx))"

definition updateIndices :: "addr \<Rightarrow> bank \<Rightarrow> bank" where
  "updateIndices a s =
     (case deref (heap s) a of
        None \<Rightarrow> s
      | Some m \<Rightarrow>
          (let timeKey = jlift (\<lambda>t. of_int \<lfloor>t / (60 * 60 * 1000)\<rfloor>) (m_timestamp m);
               bucket = (case map_of (idx_temporal s) timeKey of None \<Rightarrow> [] | Some l \<Rightarrow> l);
               temporal = map_set timeKey (bucket @ [m_id m]) (idx_temporal s);
               contextual = (case m_context m of
                               None \<Rightarrow> idx_contextual s
                             | Some ctx \<Rightarrow> contextual_index_loop (m_id m) ctx (idx_contextual s));
               importance = sort_by (\<lambda>x y. jlt (snd y) (snd x))
                              (idx_importance s @ [(m_id m, m_importance m)])
           in s\<lparr>idx_temporal := temporal, idx_contextual := contextual,
                idx_importance := importance\<rparr>))"

definition update_stats :: "addr \<Rightarrow> bank \<Rightarrow> bank" where
  "update_stats a s =
     (case deref (heap s) a of
        None \<Rightarrow> s
      | Some m \<Rightarrow>
          (let s = s\<lparr>totalMemories := totalMemories s + 1\<rparr>;
               s = (case (case oldestMemory s of None \<Rightarrow> None | Some r \<Rightarrow> deref (heap s) r) of
                      None \<Rightarrow> s\<lparr>oldestMemory := Some a\<rparr>
                    | Some old \<Rightarrow>
                        if jlt (m_timestamp m) (m_timestamp old) then s\<lparr>oldestMemory := Some a\<rparr>
                        else s);
               s = (case (case strongestMemory s of None \<Rightarrow> None | Some r \<Rightarrow> deref (heap s) r) of
                      None \<Rightarrow> s\<lparr>strongestMemory := Some a\<rparr>
                    | Some strong \<Rightarrow>
                        if jgt (m_importance m) (m_importance strong)
                        then s\<lparr>strongestMemory := Some a\<rparr>
                        else s)
           in s))"

definition assign_fields :: "js_env \<Rightarrow> string \<Rightarrow> real \<Rightarrow> real \<Rightarrow> memory \<Rightarrow> memory" where
  \<comment> \<open>the first five assignments of \<open>store\<close>; \<open>now\<close> is \<open>Date.now()\<close> and \<open>rnd\<close> is
      \<open>Math.random()\<close>\<close>
  "assign_fields env owner now rnd memory =
     memory\<lparr>m_id := Some (gen_id env owner now rnd),
            m_ownerId := Some owner,
            m_timestamp := jor (m_timestamp memory) (Num now),
            m_strength := jor (m_strength memory) (Num 0.5),
            m_accessCount := Num 0\<rparr>"

definition emotional_boost :: "memory_config \<Rightarrow> memory \<Rightarrow> memory" where
  \<comment> \<open>\<open>if (memory.emotionalContext && memory.importance) memory.importance *= \<dots>\<close>\<close>
  "emotional_boost cfg memory =
     (case m_emotionalContext memory of
        None \<Rightarrow> memory
      | Some emo \<Rightarrow>
          if truthy (m_importance memory)
          then (let emotionalIntensity = calculateEmotionalIntensity_memory emo
                in memory\<lparr>m_importance :=
                     jmul (m_importance memory)
                          (jadd (Num 1) (jmul emotionalIntensity (Num (emotionalBoost cfg))))\<rparr>)
          else memory)"

definition store_fields :: "js_env \<Rightarrow> string \<Rightarrow> memory_config \<Rightarrow> real \<Rightarrow> real \<Rightarrow> memory \<Rightarrow> memory" where
  \<comment> \<open>what \<open>store\<close> makes of the object it is given\<close>
  "store_fields env owner cfg now rnd memory =
     (let memory = assign_fields env owner now rnd memory;
          category = categorizeMemory memory;
          memory = memory\<lparr>m_category := Some category\<rparr>
      in emotional_boost cfg memory)"

definition store :: "js_env \<Rightarrow> real \<Rightarrow> real \<Rightarrow> addr \<Rightarrow> bank \<Rightarrow> error + (ident \<times> bank)" where
  \<comment> \<open>\<open>a\<close> is the object passed in; the result is \<open>memory.id\<close> and the state after the
      call. An unknown category makes \<open>this.memories[category].set\<close> throw.\<close>
  "store env now rnd a s =
     (case deref (heap s) a of
        None \<Rightarrow> Inl TypeError
      | Some memory0 \<Rightarrow>
          (let cfg = config s;
               category = categorizeMemory (assign_fields env (ownerId s) now rnd memory0);
               memory = store_fields env (ownerId s) cfg now rnd memory0;
               s = s\<lparr>heap := (heap s)[a := memory]\<rparr>
           in case parse_category category of
                None \<Rightarrow> Inl TypeError
              | Some c \<Rightarrow>
                  (let s = s\<lparr>memories := (memories s)(c := map_set (m_id memory) a (memories s c))\<rparr>;
                       s = updateWorkingMemory a s;
                       s = createAssociations a s;
                       s = updateIndices a s;
                       s = update_stats a s;
                       s = (if jgt (m_importance memory) (Num (consolidationThreshold cfg))
                            then s\<lparr>consolidationQueue := consolidationQueue s @ [a]\<rparr>
                            else s)
                   in Inr (m_id memory, s))))"

subsection \<open>\<open>consolidate\<close>\<close>

definition strengthen :: "association \<Rightarrow> association" where
  "strengthen assoc = assoc\<lparr>a_strength := jmin (Num 1.0) (jmul (a_strength assoc) (Num 1.2))\<rparr>"

fun strengthen_associations ::
  "ident \<Rightarrow> (ident \<times> association list) list \<Rightarrow> (ident \<times> association list) list" where
  \<comment> \<open>the loop over \<open>this.associations.get(memory.id)\<close>, which updates the stored list in
      place\<close>
  "strengthen_associations i [] = []"
| "strengthen_associations i ((k, l) # rest) =
     (if k = i then (k, map strengthen l) # rest
      else (k, l) # strengthen_associations i rest)"

definition consolidate :: "real \<Rightarrow> addr \<Rightarrow> bank \<Rightarrow> error + bank" where
  \<comment> \<open>\<open>a\<close> is the object passed in; \<open>saveToStorage\<close> only sets \<open>persisted\<close>\<close>
  "consolidate now a s =
     (case deref (heap s) a of
        None \<Rightarrow> Inl TypeError
      | Some memory \<Rightarrow>
          if m_consolidated memory then Inr s
          else
            (let memory = memory\<lparr>m_strength := jmin (Num 1.0) (jmul (m_strength memory) (Num 1.5))\<rparr>;
                 memory = memory\<lparr>m_consolidated := True\<rparr>;
                 memory = memory\<lparr>m_consolidatedAt := Num now\<rparr>;
                 assocs = strengthen_associations (m_id memory) (associations s);
                 memory = memory\<lparr>m_persisted := True\<rparr>
             in Inr (s\<lparr>heap := (heap s)[a := memory], associations := assocs\<rparr>)))"

subsection \<open>\<open>processForgetting\<close>\<close>

definition recently_accessed :: "real \<Rightarrow> memory \<Rightarrow> bool" where
  \<comment> \<open>\<open>memory.lastAccessed && now - memory.lastAccessed < 60000\<close>\<close>
  "recently_accessed now memory =
     (truthy (m_lastAccessed memory) \<and> jlt (jsub (Num now) (m_lastAccessed memory)) (Num 60000))"

definition retentionBonus :: "memory \<Rightarrow> jsnum" where
  "retentionBonus memory =
     (let bonus = jmul (m_importance memory) (Num 0.3);
          bonus = (if m_consolidated memory then jadd bonus (Num 0.3) else bonus);
          bonus = (if jgt (m_accessCount memory) (Num 5) then jadd bonus (Num 0.2) else bonus)
      in bonus)"

definition decayFactor :: "real \<Rightarrow> real \<Rightarrow> memory \<Rightarrow> jsnum" where
  "decayFactor rate now memory =
     (let age = jsub (Num now) (m_timestamp memory)
      in jlift (\<lambda>age. exp (- rate * age / (24 * 60 * 60 * 1000))) age)"

definition decayed_strength :: "real \<Rightarrow> real \<Rightarrow> memory \<Rightarrow> jsnum" where
  "decayed_strength rate now memory =
     jadd (jmul (m_strength memory) (decayFactor rate now memory)) (retentionBonus memory)"

fun forget_scan ::
  "real \<Rightarrow> real \<Rightarrow> (ident \<times> addr) list \<Rightarrow> memory list \<Rightarrow> memory list \<times> ident list" where
  \<comment> \<open>the inner loop over one category map: the heap with the strengths rewritten, and
      \<open>toRemove\<close>. Stored addresses always denote objects.\<close>
  "forget_scan rate now [] h = (h, [])"
| "forget_scan rate now ((i, a) # es) h =
     (case deref h a of
        None \<Rightarrow> forget_scan rate now es h
      | Some memory \<Rightarrow>
          if recently_accessed now memory then forget_scan rate now es h
          else
            (let memory' = memory\<lparr>m_strength := decayed_strength rate now memory\<rparr>;
                 (h', toRemove) = forget_scan rate now es (h[a := memory'])
             in (h', if jlt (m_strength memory') (Num 0.1) then i # toRemove else toRemove)))"

fun remove_forgotten :: "category \<Rightarrow> ident list \<Rightarrow> bank \<Rightarrow> bank" where
  "remove_forgotten c [] s = s"
| "remove_forgotten c (i # ids) s =
     remove_forgotten c ids
       (s\<lparr>memories := (memories s)(c := map_delete i (memories s c)),
          associations := map_delete i (associations s),
          forgottenMemories := forgottenMemories s + 1\<rparr>)"

definition forget_category :: "real \<Rightarrow> category \<Rightarrow> bank \<Rightarrow> bank" where
  "forget_category now c s =
     (let (h, toRemove) = forget_scan (forgettingRate (config s)) now (memories s c) (heap s)
      in remove_forgotten c toRemove (s\<lparr>heap := h\<rparr>))"

definition processForgetting :: "real \<Rightarrow> bank \<Rightarrow> bank" where
  "processForgetting now s = fold (forget_category now) categories s"

subsection \<open>\<open>query\<close>\<close>

record query =
  q_type :: "string option"
  q_context :: "(string \<times> string) list option"
  q_associatedWith :: "string option"
  q_timeRange :: "(jsnum \<times> jsnum) option"
  q_search :: "string option"
  q_minImportance :: jsnum
  q_category :: "string option"
  q_limit :: "nat option"

definition all_entries :: "bank \<Rightarrow> addr list" where
  \<comment> \<open>the nested loop over the categories and their maps\<close>
  "all_entries s = concat (map (\<lambda>c. map snd (memories s c)) categories)"

definition queryByType :: "bank \<Rightarrow> string \<Rightarrow> addr list" where
  "queryByType s ty =
     filter (\<lambda>a. case deref (heap s) a of None \<Rightarrow> False | Some m \<Rightarrow> m_type m = Some ty)
            (all_entries s)"

fun copy_associated :: "bank \<Rightarrow> association list \<Rightarrow> memory list \<Rightarrow> addr list \<times> memory list" where
  \<comment> \<open>each hit is a new object \<open>{...memory, associationStrength, associationType}\<close>\<close>
  "copy_associated s [] h = ([], h)"
| "copy_associated s (assoc # rest) h =
     (case (case getMemoryById s (targetId assoc) of None \<Rightarrow> None | Some a \<Rightarrow> deref h a) of
        None \<Rightarrow> copy_associated s rest h
      | Some memory \<Rightarrow>
          (let copy = memory\<lparr>m_associationStrength := Some (a_strength assoc),
                             m_associationType := Some (a_type assoc)\<rparr>;
               (as, h') = copy_associated s rest (h @ [copy])
           in (length h # as, h')))"

definition opt_num :: "jsnum option \<Rightarrow> jsnum" where
  \<comment> \<open>a field that may be absent, read as a number\<close>
  "opt_num x = (case x of None \<Rightarrow> NaN | Some v \<Rightarrow> v)"

definition key_of :: "memory list \<Rightarrow> (memory \<Rightarrow> jsnum) \<Rightarrow> addr \<Rightarrow> jsnum" where
  "key_of h f a = (case deref h a of None \<Rightarrow> NaN | Some m \<Rightarrow> f m)"

definition sort_desc :: "memory list \<Rightarrow> (memory \<Rightarrow> jsnum) \<Rightarrow> addr list \<Rightarrow> addr list" where
  \<comment> \<open>\<open>results.sort((a, b) => b.f - a.f)\<close>\<close>
  "sort_desc h f as = sort_by (\<lambda>x y. jlt (key_of h f y) (key_of h f x)) as"

definition queryByAssociation :: "bank \<Rightarrow> string \<Rightarrow> addr list \<times> memory list" where
  "queryByAssociation s memoryId =
     (let assocs = (case map_of (associations s) (Some memoryId) of None \<Rightarrow> [] | Some l \<Rightarrow> l);
          (results, h) = copy_associated s assocs (heap s)
      in (sort_desc h (opt_num \<circ> m_associationStrength) results, h))"

definition queryByTimeRange :: "bank \<Rightarrow> jsnum \<times> jsnum \<Rightarrow> addr list" where
  "queryByTimeRange s timeRange =
     (let (t_start, t_end) = timeRange;
          results = filter (\<lambda>a. case deref (heap s) a of
                                    None \<Rightarrow> False
                                  | Some m \<Rightarrow> jge (m_timestamp m) t_start \<and> jle (m_timestamp m) t_end)
                           (all_entries s)
      in sort_desc (heap s) m_timestamp results)"

definition search_relevance :: "js_env \<Rightarrow> string \<Rightarrow> memory \<Rightarrow> real" where
  "search_relevance env searchLower memory =
     (let relevance = 0;
          relevance =
            (case m_content memory of
               None \<Rightarrow> relevance
             | Some content \<Rightarrow>
                 if sublist searchLower (toLowerCase env (json_content env content))
                 then relevance + 0.5 else relevance);
          relevance =
            (case m_type memory of
               None \<Rightarrow> relevance
             | Some ty \<Rightarrow>
                 if ty \<noteq> [] \<and> sublist searchLower ty then relevance + 0.3 else relevance);
          relevance =
            (case m_context memory of
               None \<Rightarrow> relevance
             | Some ctx \<Rightarrow>
                 if sublist searchLower (toLowerCase env (json_context env ctx))
                 then relevance + 0.2 else relevance)
      in relevance)"

fun copy_found :: "js_env \<Rightarrow> string \<Rightarrow> memory list \<Rightarrow> addr list \<Rightarrow> memory list \<Rightarrow> addr list \<times> memory list" where
  \<comment> \<open>each hit is a new object \<open>{...memory, relevance}\<close>\<close>
  "copy_found env searchLower h0 [] h = ([], h)"
| "copy_found env searchLower h0 (a # rest) h =
     (case deref h0 a of
        None \<Rightarrow> copy_found env searchLower h0 rest h
      | Some memory \<Rightarrow>
          (let relevance = search_relevance env searchLower memory
           in if relevance > 0
              then (let (as, h') = copy_found env searchLower h0 rest
                                     (h @ [memory\<lparr>m_relevance := Some (Num relevance)\<rparr>])
                    in (length h # as, h'))
              else copy_found env searchLower h0 rest h))"

definition searchMemories :: "js_env \<Rightarrow> bank \<Rightarrow> string \<Rightarrow> addr list \<times> memory list" where
  "searchMemories env s searchTerm =
     (let searchLower = toLowerCase env searchTerm;
          (results, h) = copy_found env searchLower (heap s) (all_entries s) (heap s)
      in (sort_desc h (opt_num \<circ> m_relevance) results, h))"

definition jlog :: "jsnum \<Rightarrow> jsnum" where
  \<comment> \<open>\<open>Math.log\<close>: \<open>NaN\<close> below 0; the value at 0 is outside the number model\<close>
  "jlog x = (case x of Num v \<Rightarrow> if v > 0 then Num (ln v) else NaN | NaN \<Rightarrow> NaN)"

definition relevance_score :: "real \<Rightarrow> memory \<Rightarrow> jsnum" where
  "relevance_score now memory =
     (let score = Num 0;
          age = jsub (Num now) (m_timestamp memory);
          score = jadd score (jlift (\<lambda>age. exp (- age / (7 * 24 * 60 * 60 * 1000))) age);
          score = jadd score (jmul (m_importance memory) (Num 2));
          score = jadd score (jmul (jlog (jadd (Num 1) (m_accessCount memory))) (Num 0.5));
          score = (if m_consolidated memory then jadd score (Num 0.5) else score)
      in score)"

fun copy_ranked :: "real \<Rightarrow> addr list \<Rightarrow> memory list \<Rightarrow> addr list \<times> memory list" where
  \<comment> \<open>the \<open>map\<close> of \<open>_rankByRelevance\<close>: each result becomes a new object
      \<open>{...memory, relevanceScore}\<close>\<close>
  "copy_ranked now [] h = ([], h)"
| "copy_ranked now (a # rest) h =
     (case deref h a of
        None \<Rightarrow> copy_ranked now rest h
      | Some memory \<Rightarrow>
          (let copy = memory\<lparr>m_relevanceScore := Some (relevance_score now memory)\<rparr>;
               (as, h') = copy_ranked now rest (h @ [copy])
           in (length h # as, h')))"

definition rankByRelevance :: "real \<Rightarrow> addr list \<Rightarrow> memory list \<Rightarrow> addr list \<times> memory list" where
  "rankByRelevance now results h =
     (let (copies, h') = copy_ranked now results h
      in (sort_desc h' (opt_num \<circ> m_relevanceScore) copies, h'))"

fun touch :: "real \<Rightarrow> addr list \<Rightarrow> memory list \<Rightarrow> memory list" where
  \<comment> \<open>the final loop of \<open>query\<close>: \<open>memory.accessCount++; memory.lastAccessed = Date.now()\<close>\<close>
  "touch now [] h = h"
| "touch now (a # rest) h =
     (case deref h a of
        None \<Rightarrow> touch now rest h
      | Some memory \<Rightarrow>
          touch now rest
            (h[a := memory\<lparr>m_accessCount := jadd (m_accessCount memory) (Num 1),
                            m_lastAccessed := Num now\<rparr>]))"

definition query :: "js_env \<Rightarrow> real \<Rightarrow> query \<Rightarrow> bank \<Rightarrow> addr list \<times> bank" where
  \<comment> \<open>the result list (references into the heap) and the state after the call\<close>
  "query env now q s =
     (let (results, h) =
            (if truthy_str (q_type q) then (queryByType s (the (q_type q)), heap s)
             else if q_context q \<noteq> None then (queryByContext s (the (q_context q)), heap s)
             else if truthy_str (q_associatedWith q)
               then queryByAssociation s (the (q_associatedWith q))
             else if q_timeRange q \<noteq> None then (queryByTimeRange s (the (q_timeRange q)), heap s)
             else if truthy_str (q_search q) then searchMemories env s (the (q_search q))
             else ([], heap s));
          results =
            (if truthy (q_minImportance q)
             then filter (\<lambda>a. jge (key_of h m_importance a) (q_minImportance q)) results
             else results);
          results =
            (if truthy_str (q_category q)
             then filter (\<lambda>a. case deref h a of
                                 None \<Rightarrow> False
                               | Some m \<Rightarrow> m_category m = q_category q) results
             else results);
          (results, h) = rankByRelevance now results h;
          results =
            (case q_limit q of
               None \<Rightarrow> results
             | Some limit \<Rightarrow> if limit \<noteq> 0 then take limit results else results);
          h = touch now results h
      in (results, s\<lparr>heap := h\<rparr>))"

section \<open>Emergence: \<open>src/consciousness/emergence-engine.js\<close>\<close>

text \<open>
  \<open>Math.random()\<close> is a stream of reals read at increasing positions; \<open>Date.now()\<close> is
  one reading \<open>now\<close> per call of \<open>checkEmergence\<close>. The memory bank argument is passed
  on to helpers that ignore it, so it does not appear in the model. The state argument is
  an object; the personality may be missing.
\<close>

record emergence_config =
  emergenceThreshold :: real
  complexityLevel :: real
  creativityFactor :: real
  ruleInteractionDepth :: nat

definition default_emergence_config :: emergence_config where
  "default_emergence_config =
     \<lparr>emergenceThreshold = 0.7, complexityLevel = 0.8, creativityFactor = 0.6,
      ruleInteractionDepth = 3\<rparr>"

record personality =
  agreeableness :: jsnum
  curiosity :: jsnum
  creativity :: jsnum
  courage :: jsnum
  openness :: jsnum

record npc_goal =
  progress :: jsnum

record npc_state =
  st_awareness :: jsnum
  st_energy :: jsnum
  st_socialNeed :: jsnum
  st_threat :: jsnum
  st_growthNeed :: jsnum
  st_emotionalContext :: "(string \<times> jsval) list option"
  st_nearbyEntities :: "nat option"
  st_goals :: "npc_goal list option"
  st_emotionalEnergy :: jsnum

record needs =
  n_energy :: jsnum
  n_social :: jsnum
  n_safety :: jsnum
  n_growth :: jsnum

record emergence_context =
  e_state :: npc_state
  e_personality :: "personality option"
  e_timestamp :: real
  e_needs :: needs
  e_threat :: jsnum
  e_emotionalExtreme :: jsnum
  e_mood :: jsval
  e_socialContext :: jsnum
  e_recentKindness :: jsnum
  e_novelty :: jsnum
  e_activeGoal :: "npc_goal option"
  e_goalProgress :: jsnum
  e_conflictingGoals :: nat
  e_similarPastSituation :: bool
  e_pastOutcome :: "string option"
  e_traumaticMemoryTriggered :: bool
  e_incompletePattern :: bool
  e_emotionalEnergy :: jsnum

definition analyzeNeeds :: "npc_state \<Rightarrow> needs" where
  "analyzeNeeds state =
     \<lparr>n_energy = jor (st_energy state) (Num 1),
      n_social = jor (st_socialNeed state) (Num 0.5),
      n_safety = jsub (Num 1) (jor (st_threat state) (Num 0)),
      n_growth = jor (st_growthNeed state) (Num 0.5)\<rparr>"

definition assessThreat :: "npc_state \<Rightarrow> jsnum" where
  "assessThreat state = jor (st_threat state) (Num 0)"

fun emotional_extreme_loop :: "jsval list \<Rightarrow> jsnum \<Rightarrow> jsnum" where
  "emotional_extreme_loop [] maxEmotion = maxEmotion"
| "emotional_extreme_loop (JNumber v # vs) maxEmotion =
     emotional_extreme_loop vs (jmax maxEmotion (jlift abs v))"
| "emotional_extreme_loop (JString s # vs) maxEmotion = emotional_extreme_loop vs maxEmotion"

definition findEmotionalExtreme :: "npc_state \<Rightarrow> jsnum" where
  "findEmotionalExtreme state =
     (case st_emotionalContext state of
        None \<Rightarrow> Num 0
      | Some ec \<Rightarrow> emotional_extreme_loop (map snd ec) (Num 0))"

definition current_mood :: "npc_state \<Rightarrow> jsval" where
  \<comment> \<open>\<open>state.emotionalContext?.currentMood || 'neutral'\<close>\<close>
  "current_mood state =
     (case st_emotionalContext state of
        None \<Rightarrow> JString ''neutral''
      | Some ec \<Rightarrow>
          (case map_of ec ''currentMood'' of
             None \<Rightarrow> JString ''neutral''
           | Some (JString m) \<Rightarrow> if m \<noteq> [] then JString m else JString ''neutral''
           | Some (JNumber n) \<Rightarrow> if truthy n then JNumber n else JString ''neutral''))"

definition analyzeSocialContext :: "npc_state \<Rightarrow> jsnum" where
  "analyzeSocialContext state =
     (case st_nearbyEntities state of
        None \<Rightarrow> Num 0
      | Some n \<Rightarrow> if n > 0 then Num 1 else Num 0)"

definition checkRecentKindness :: "real \<Rightarrow> jsnum" where
  "checkRecentKindness r = (if r > 0.5 then Num 0.7 else Num 0)"

definition countConflictingGoals :: "npc_goal list option \<Rightarrow> nat" where
  "countConflictingGoals goals =
     (case goals of
        None \<Rightarrow> 0
      | Some gs \<Rightarrow> if length gs < 2 then 0 else length gs div 2)"

definition buildContext ::
  "real \<Rightarrow> (nat \<Rightarrow> real) \<Rightarrow> npc_state \<Rightarrow> personality option \<Rightarrow> emergence_context" where
  \<comment> \<open>reads positions 0 to 3 of the random stream, in the order of the calls\<close>
  "buildContext now rnd state pers =
     (let activeGoal = (case st_goals state of
                          None \<Rightarrow> None
                        | Some gs \<Rightarrow> (case gs of [] \<Rightarrow> None | g # _ \<Rightarrow> Some g));
          similar = (rnd 2 > 0.7)
      in \<lparr>e_state = state,
          e_personality = pers,
          e_timestamp = now,
          e_needs = analyzeNeeds state,
          e_threat = assessThreat state,
          e_emotionalExtreme = findEmotionalExtreme state,
          e_mood = current_mood state,
          e_socialContext = analyzeSocialContext state,
          e_recentKindness = checkRecentKindness (rnd 0),
          e_novelty = Num (rnd 1),
          e_activeGoal = activeGoal,
          e_goalProgress = (case activeGoal of
                              None \<Rightarrow> Num 0
                            | Some g \<Rightarrow> jor (progress g) (Num 0)),
          e_conflictingGoals = countConflictingGoals (st_goals state),
          e_similarPastSituation = similar,
          e_pastOutcome = (if similar then Some ''positive'' else None),
          e_traumaticMemoryTriggered = False,
          e_incompletePattern = (rnd 3 > 0.8),
          e_emotionalEnergy = jor (st_emotionalEnergy state) (Num 0.5)\<rparr>)"

record rule =
  r_id :: string
  r_condition :: "emergence_context \<Rightarrow> error + bool"
  r_weight :: real
  r_outcomes :: "string list"

definition trait :: "emergence_context \<Rightarrow> (personality \<Rightarrow> jsnum) \<Rightarrow> error + jsnum" where
  \<comment> \<open>\<open>ctx.personality.t\<close>: throws when the personality is missing\<close>
  "trait ctx t = (case e_personality ctx of None \<Rightarrow> Inl TypeError | Some p \<Rightarrow> Inr (t p))"

definition defineBehaviorRules :: "rule list" where
  "defineBehaviorRules =
     [\<lparr>r_id = ''self_preservation'',
       r_condition = (\<lambda>ctx. Inr (jlt (st_awareness (e_state ctx)) (Num 0.3)
                                  \<or> jgt (e_threat ctx) (Num 0.5))),
       r_weight = 0.9, r_outcomes = [''flee'', ''hide'', ''defend'']\<rparr>,
      \<lparr>r_id = ''resource_seeking'',
       r_condition = (\<lambda>ctx. Inr (jlt (n_energy (e_needs ctx)) (Num 0.3)
                                  \<or> jlt (n_social (e_needs ctx)) (Num 0.3))),
       r_weight = 0.7, r_outcomes = [''search'', ''ask_for_help'', ''trade'']\<rparr>,
      \<lparr>r_id = ''reciprocity'',
       r_condition = (\<lambda>ctx. Inr (jgt (e_recentKindness ctx) (Num 0.5))),
       r_weight = 0.8,
       r_outcomes = [''return_favor'', ''express_gratitude'', ''strengthen_bond'']\<rparr>,
      \<lparr>r_id = ''social_mirroring'',
       r_condition = (\<lambda>ctx. if truthy (e_socialContext ctx)
                             then (case trait ctx agreeableness of
                                     Inl e \<Rightarrow> Inl e
                                   | Inr a \<Rightarrow> Inr (jgt a (Num 0.6)))
                             else Inr False),
       r_weight = 0.6, r_outcomes = [''mirror_emotion'', ''align_behavior'', ''show_empathy'']\<rparr>,
      \<lparr>r_id = ''emotional_regulation'',
       r_condition = (\<lambda>ctx. Inr (jgt (jlift abs (e_emotionalExtreme ctx)) (Num 0.8))),
       r_weight = 0.7, r_outcomes = [''seek_comfort'', ''isolate'', ''express_emotion'']\<rparr>,
      \<lparr>r_id = ''mood_congruent_behavior'',
       r_condition = (\<lambda>ctx. Inr (e_mood ctx \<noteq> JString ''neutral'')),
       r_weight = 0.5, r_outcomes = [''act_on_mood'', ''seek_mood_change'', ''spread_mood'']\<rparr>,
      \<lparr>r_id = ''curiosity_driven'',
       r_condition = (\<lambda>ctx. case trait ctx curiosity of
                               Inl e \<Rightarrow> Inl e
                             | Inr c \<Rightarrow> Inr (jgt c (Num 0.7) \<and> jgt (e_novelty ctx) (Num 0.5))),
       r_weight = 0.6, r_outcomes = [''investigate'', ''ask_questions'', ''experiment'']\<rparr>,
      \<lparr>r_id = ''pattern_completion'',
       r_condition = (\<lambda>ctx. Inr (e_incompletePattern ctx)),
       r_weight = 0.7,
       r_outcomes = [''complete_pattern'', ''break_pattern'', ''create_variation'']\<rparr>,
      \<lparr>r_id = ''goal_pursuit'',
       r_condition = (\<lambda>ctx. Inr (e_activeGoal ctx \<noteq> None \<and> jlt (e_goalProgress ctx) (Num 0.8))),
       r_weight = 0.8, r_outcomes = [''take_action'', ''plan_steps'', ''seek_resources'']\<rparr>,
      \<lparr>r_id = ''goal_conflict_resolution'',
       r_condition = (\<lambda>ctx. Inr (e_conflictingGoals ctx > 1)),
       r_weight = 0.6, r_outcomes = [''prioritize'', ''compromise'', ''abandon_goal'']\<rparr>,
      \<lparr>r_id = ''learned_behavior'',
       r_condition = (\<lambda>ctx. Inr (e_similarPastSituation ctx
                                  \<and> e_pastOutcome ctx = Some ''positive'')),
       r_weight = 0.7, r_outcomes = [''repeat_success'', ''adapt_strategy'', ''teach_others'']\<rparr>,
      \<lparr>r_id = ''trauma_avoidance'',
       r_condition = (\<lambda>ctx. Inr (e_traumaticMemoryTriggered ctx)),
       r_weight = 0.9, r_outcomes = [''avoid'', ''freeze'', ''seek_safety'']\<rparr>,
      \<lparr>r_id = ''creative_expression'',
       r_condition = (\<lambda>ctx. case trait ctx creativity of
                               Inl e \<Rightarrow> Inl e
                             | Inr c \<Rightarrow> Inr (jgt c (Num 0.7)
                                             \<and> jgt (e_emotionalEnergy ctx) (Num 0.5))),
       r_weight = 0.5, r_outcomes = [''create_something'', ''innovate'', ''combine_ideas'']\<rparr>,
      \<lparr>r_id = ''playful_behavior'',
       r_condition = (\<lambda>ctx. Inr (e_mood ctx = JString ''joyful'' \<and> truthy (e_socialContext ctx))),
       r_weight = 0.4, r_outcomes = [''play'', ''joke'', ''surprise_others'']\<rparr>]"

record activation =
  act_rule :: rule
  act_strength :: real

definition evaluateRules :: "rule list \<Rightarrow> emergence_context \<Rightarrow> activation list" where
  \<comment> \<open>a condition that throws is caught and the rule does not fire\<close>
  "evaluateRules rules ctx =
     map (\<lambda>r. \<lparr>act_rule = r, act_strength = r_weight r\<rparr>)
         (filter (\<lambda>r. r_condition r ctx = Inr True) rules)"

text \<open>A pattern; its \<open>context\<close> field is the context of the call and is not repeated.\<close>

record pattern =
  p_type :: string
  p_rules :: "string list"
  p_strength :: real
  p_outcomes :: "string list"

definition synergies :: "(string \<times> real \<times> string list) list" where
  "synergies =
     [(''curiosity_driven+creative_expression'',
       (0.9, [''innovative_exploration'', ''creative_discovery''])),
      (''emotional_regulation+social_mirroring'',
       (0.8, [''empathetic_support'', ''emotional_contagion''])),
      (''goal_pursuit+resource_seeking'',
       (0.85, [''strategic_acquisition'', ''collaborative_achievement''])),
      (''learned_behavior+pattern_completion'',
       (0.75, [''optimized_behavior'', ''habit_formation'']))]"

definition analyzeRuleInteraction :: "activation \<Rightarrow> activation \<Rightarrow> (real \<times> string list) option" where
  "analyzeRuleInteraction activation1 activation2 =
     (let rule1 = act_rule activation1;
          rule2 = act_rule activation2;
          key1 = r_id rule1 @ ''+'' @ r_id rule2;
          key2 = r_id rule2 @ ''+'' @ r_id rule1
      in case map_of synergies key1 of
           Some v \<Rightarrow> Some v
         | None \<Rightarrow> map_of synergies key2)"

fun pairs_of :: "'a list \<Rightarrow> ('a \<times> 'a) list" where
  \<comment> \<open>the pairs \<open>(xs[i], xs[j])\<close> with \<open>i < j\<close>, in the order of the nested loops\<close>
  "pairs_of [] = []"
| "pairs_of (x # xs) = map (Pair x) xs @ pairs_of xs"

definition connections :: "(string \<times> string list) list" where
  "connections =
     [(''search'', [''resource_seeking'', ''curiosity_driven'']),
      (''express_emotion'', [''emotional_regulation'', ''social_mirroring'']),
      (''take_action'', [''goal_pursuit'', ''learned_behavior''])]"

definition rulesConnected :: "rule \<Rightarrow> rule \<Rightarrow> bool" where
  "rulesConnected rule1 rule2 =
     list_ex (\<lambda>outcome. case map_of connections outcome of
                           None \<Rightarrow> False
                         | Some ids \<Rightarrow> r_id rule2 \<in> set ids)
             (r_outcomes rule1)"

definition findNextInChain :: "activation \<Rightarrow> activation list \<Rightarrow> nat list \<Rightarrow> nat option" where
  \<comment> \<open>activations are told apart by their position in the list; \<open>used\<close> holds positions\<close>
  "findNextInChain current activations used =
     (case filter (\<lambda>j. j \<notin> set used
                        \<and> rulesConnected (act_rule current) (act_rule (activations ! j)))
                  [0..<length activations] of
        [] \<Rightarrow> None
      | j # _ \<Rightarrow> Some j)"

lemma findNextInChain_Some:
  assumes "findNextInChain current activations used = Some j"
  shows "j < length activations \<and> j \<notin> set used"
proof -
  let ?P = "\<lambda>j. j \<notin> set used \<and> rulesConnected (act_rule current) (act_rule (activations ! j))"
  from assms obtain rest where "filter ?P [0..<length activations] = j # rest"
    by (auto simp add: findNextInChain_def split: list.splits)
  then have "j \<in> set (filter ?P [0..<length activations])" by simp
  then show ?thesis by simp
qed

function build_chain :: "activation list \<Rightarrow> activation \<Rightarrow> nat list \<Rightarrow> activation list \<times> nat list" where
  \<comment> \<open>the \<open>while (true)\<close> loop of \<open>_findRuleChains\<close>: the rest of the chain after
      \<open>current\<close>, and the positions used\<close>
  "build_chain activations current used =
     (case findNextInChain current activations used of
        None \<Rightarrow> ([], used)
      | Some j \<Rightarrow>
          (let (chain, used') = build_chain activations (activations ! j) (j # used)
           in (activations ! j # chain, used')))"
  by pat_completeness auto
termination
proof (relation "measure (\<lambda>(activations, current, used). card ({..<length activations} - set used))")
  show "wf (measure (\<lambda>(activations, current, used). card ({..<length activations} - set used)))"
    by simp
next
  fix activations :: "activation list" and current used j
  assume "findNextInChain current activations used = Some j"
  then have j: "j < length activations" "j \<notin> set used" using findNextInChain_Some by blast+
  have "{..<length activations} - set (j # used) \<subset> {..<length activations} - set used"
    using j by auto
  then have "card ({..<length activations} - set (j # used))
               < card ({..<length activations} - set used)"
    by (intro psubset_card_mono) auto
  then show "((activations, activations ! j, j # used), (activations, current, used))
               \<in> measure (\<lambda>(activations, current, used). card ({..<length activations} - set used))"
    by simp
qed

fun find_chains_from :: "activation list \<Rightarrow> nat list \<Rightarrow> nat list \<Rightarrow> activation list list" where
  \<comment> \<open>the outer loop of \<open>_findRuleChains\<close> over the start positions\<close>
  "find_chains_from activations [] used = []"
| "find_chains_from activations (i # is) used =
     (if i \<in> set used then find_chains_from activations is used
      else (let (rest, used') = build_chain activations (activations ! i) (i # used);
                chain = activations ! i # rest
            in if length chain > 1 then chain # find_chains_from activations is used'
               else find_chains_from activations is used'))"

definition findRuleChains :: "activation list \<Rightarrow> activation list list" where
  "findRuleChains activations = find_chains_from activations [0..<length activations] []"

definition calculateChainStrength :: "activation list \<Rightarrow> real" where
  \<comment> \<open>\<open>Math.pow(product, 1 / length)\<close>; the strengths are rule weights\<close>
  "calculateChainStrength chain =
     (fold (\<lambda>a strength. strength * act_strength a) chain 1) powr (1 / real (length chain))"

definition add_outcome :: "string \<Rightarrow> string list \<Rightarrow> string list" where
  \<comment> \<open>\<open>Set.prototype.add\<close>, in insertion order\<close>
  "add_outcome x xs = (if x \<in> set xs then xs else xs @ [x])"

definition predictChainOutcomes :: "activation list \<Rightarrow> string list" where
  "predictChainOutcomes chain =
     (let outcomes = fold add_outcome (concat (map (r_outcomes \<circ> act_rule) chain)) [];
          outcomes =
            (if length chain \<ge> 3
             then (let outcomes = add_outcome ''complex_behavior'' outcomes;
                       outcomes = (if list_ex (\<lambda>a. sublist ''creative'' (r_id (act_rule a))) chain
                                   then add_outcome ''novel_solution'' outcomes else outcomes);
                       outcomes = (if list_ex (\<lambda>a. sublist ''social'' (r_id (act_rule a))) chain
                                   then add_outcome ''social_innovation'' outcomes else outcomes)
                   in outcomes)
             else outcomes)
      in outcomes)"

definition detectComplexPatterns :: "activation list \<Rightarrow> pattern list" where
  "detectComplexPatterns activations =
     map (\<lambda>chain. \<lparr>p_type = ''complex'', p_rules = map (r_id \<circ> act_rule) chain,
                    p_strength = calculateChainStrength chain,
                    p_outcomes = predictChainOutcomes chain\<rparr>)
         (filter (\<lambda>chain. length chain \<ge> 3) (findRuleChains activations))"

subsection \<open>The pattern registry\<close>

record registry_entry =
  reg_count :: nat
  firstSeen :: real
  reg_pattern :: pattern

type_synonym registry = "string \<Rightarrow> registry_entry option"

fun join_with :: "string \<Rightarrow> string list \<Rightarrow> string" where
  \<comment> \<open>\<open>Array.prototype.join\<close>\<close>
  "join_with sep [] = []"
| "join_with sep [x] = x"
| "join_with sep (x # y # zs) = x @ sep @ join_with sep (y # zs)"

definition getPatternKey :: "pattern \<Rightarrow> string" where
  \<comment> \<open>the key read off a pattern whose rule ids are in sorted order\<close>
  "getPatternKey p = p_type p @ ''_'' @ join_with ''_'' (sort (p_rules p))"

definition sort_rules :: "pattern \<Rightarrow> pattern" where
  \<comment> \<open>\<open>pattern.rules.sort()\<close> inside \<open>_getPatternKey\<close> sorts the array in place\<close>
  "sort_rules p = p\<lparr>p_rules := sort (p_rules p)\<rparr>"

definition novel_variant :: "emergence_config \<Rightarrow> pattern \<Rightarrow> pattern" where
  "novel_variant cfg p =
     p\<lparr>p_type := ''novel'', p_strength := p_strength p * creativityFactor cfg,
       p_outcomes := p_outcomes p @ [''surprising_behavior'']\<rparr>"

definition habit_variant :: "pattern \<Rightarrow> pattern" where
  "habit_variant p =
     p\<lparr>p_type := ''habit_forming'', p_strength := p_strength p * 0.8,
       p_outcomes := p_outcomes p @ [''habit_formation'']\<rparr>"

definition note_pattern ::
  "emergence_config \<Rightarrow> real \<Rightarrow> pattern \<Rightarrow> registry \<Rightarrow> pattern \<times> pattern list \<times> registry" where
  \<comment> \<open>one round of the loop of \<open>_detectNovelPatterns\<close>: the pattern (its rule ids now
      sorted), what is pushed on \<open>novel\<close>, and the registry\<close>
  "note_pattern cfg now p0 reg =
     (let patternKey = getPatternKey p0;
          p = sort_rules p0
      in case reg patternKey of
           None \<Rightarrow>
             (let novelPattern = novel_variant cfg p
              in (p, [novelPattern],
                  reg(patternKey \<mapsto>
                        \<lparr>reg_count = 1, firstSeen = now, reg_pattern = novelPattern\<rparr>)))
         | Some entry \<Rightarrow>
             (let entry = entry\<lparr>reg_count := reg_count entry + 1\<rparr>;
                  reg = reg(patternKey \<mapsto> entry)
              in if reg_count entry mod 10 = 0 then (p, [habit_variant p], reg)
                 else (p, [], reg)))"

fun detectNovelPatterns ::
  "emergence_config \<Rightarrow> real \<Rightarrow> pattern list \<Rightarrow> registry \<Rightarrow> pattern list \<times> pattern list \<times> registry" where
  "detectNovelPatterns cfg now [] reg = ([], [], reg)"
| "detectNovelPatterns cfg now (p # ps) reg =
     (let (p', novel1, reg1) = note_pattern cfg now p reg;
          (ps', novel2, reg2) = detectNovelPatterns cfg now ps reg1
      in (p' # ps', novel1 @ novel2, reg2))"

definition detectPatterns ::
  "emergence_config \<Rightarrow> real \<Rightarrow> activation list \<Rightarrow> registry \<Rightarrow> pattern list \<times> registry" where
  "detectPatterns cfg now activations reg =
     (let patterns =
            map (\<lambda>a. \<lparr>p_type = ''single'', p_rules = [r_id (act_rule a)],
                      p_strength = act_strength a, p_outcomes = r_outcomes (act_rule a)\<rparr>)
                activations;
          patterns = patterns @
            concat (map (\<lambda>(ai, aj).
                           case analyzeRuleInteraction ai aj of
                             None \<Rightarrow> []
                           | Some (strength, outcomes) \<Rightarrow>
                               [\<lparr>p_type = ''interaction'',
                                 p_rules = [r_id (act_rule ai), r_id (act_rule aj)],
                                 p_strength = strength, p_outcomes = outcomes\<rparr>])
                        (pairs_of activations));
          patterns = (if ruleInteractionDepth cfg \<ge> 3
                      then patterns @ detectComplexPatterns activations else patterns);
          (patterns, novelPatterns, reg) = detectNovelPatterns cfg now patterns reg
      in (patterns @ novelPatterns, reg))"

subsection \<open>Behaviors\<close>

datatype behavior_id =
    EmergenceId real real  \<comment> \<open>\<open>emergence_${Date.now()}_${random}\<close>\<close>
  | MetaId real            \<comment> \<open>\<open>meta_${Date.now()}\<close>\<close>
  | SequenceId real        \<comment> \<open>\<open>sequence_${Date.now()}\<close>\<close>

text \<open>
  The parameter block of a behavior. Its \<open>target\<close> is \<open>null\<close>, or
  \<open>context.lastHelper\<close>, which no code sets; it is left out.
\<close>

record behavior_params =
  intensity :: real
  duration :: real
  direction :: "real option"
  speed :: "jsnum option"
  creationType :: "string option"
  inspiration :: "jsval option"
  favorType :: "string option"
  surpriseType :: "string option"

record behavior =
  b_id :: behavior_id
  b_type :: string
  b_pattern :: "string option"
  b_rules :: "string list"
  b_strength :: real
  b_timestamp :: "real option"
  action :: string
  creative :: bool
  b_novelty :: "real option"
  parameters :: "behavior_params option"
  predictedConsequences :: "string list"
  description :: "string option"
  sourceBehaviors :: "behavior_id list"
  steps :: "string list"

definition or_default :: "jsnum \<Rightarrow> real" where
  \<comment> \<open>\<open>w || weights.default\<close>\<close>
  "or_default w = (case w of Num x \<Rightarrow> if x \<noteq> 0 then x else 0.5 | NaN \<Rightarrow> 0.5)"

definition getOutcomeWeight :: "emergence_config \<Rightarrow> string \<Rightarrow> emergence_context \<Rightarrow> error + real" where
  \<comment> \<open>the table is built on every call and reads \<open>context.personality.courage\<close> and the
      other traits: it throws when the personality is missing\<close>
  "getOutcomeWeight cfg outcome ctx =
     (case e_personality ctx of
        None \<Rightarrow> Inl TypeError
      | Some p \<Rightarrow>
          (let weights =
                 [(''flee'', jmul (e_threat ctx) (Num 2)),
                  (''hide'', jmul (e_threat ctx) (Num 1.5)),
                  (''defend'', jmul (e_threat ctx) (courage p)),
                  (''return_favor'', jmul (e_recentKindness ctx) (agreeableness p)),
                  (''express_gratitude'', jmul (e_recentKindness ctx) (Num 1.2)),
                  (''strengthen_bond'', jmul (e_socialContext ctx) (Num 1.1)),
                  (''create_something'', jmul (creativity p) (e_emotionalEnergy ctx)),
                  (''innovate'', jmul (creativity p) (e_novelty ctx)),
                  (''surprising_behavior'', jmul (openness p) (Num (creativityFactor cfg))),
                  (''default'', Num 0.5)]
           in case map_of weights outcome of
                None \<Rightarrow> Inr 0.5
              | Some w \<Rightarrow> Inr (or_default w)))"

fun weigh_outcomes ::
  "emergence_config \<Rightarrow> emergence_context \<Rightarrow> string list \<Rightarrow> error + (string \<times> real) list" where
  "weigh_outcomes cfg ctx [] = Inr []"
| "weigh_outcomes cfg ctx (outcome # rest) =
     (case getOutcomeWeight cfg outcome ctx of
        Inl e \<Rightarrow> Inl e
      | Inr w \<Rightarrow>
          (case weigh_outcomes cfg ctx rest of
             Inl e \<Rightarrow> Inl e
           | Inr ws \<Rightarrow> Inr ((outcome, w) # ws)))"

definition pick :: "'a list \<Rightarrow> int \<Rightarrow> 'a option" where
  \<comment> \<open>\<open>xs[i]\<close>: \<open>undefined\<close> outside the array\<close>
  "pick xs i = (if 0 \<le> i \<and> nat i < length xs then Some (xs ! nat i) else None)"

definition selectOutcome ::
  "emergence_config \<Rightarrow> (nat \<Rightarrow> real) \<Rightarrow> nat \<Rightarrow> string list \<Rightarrow> emergence_context
     \<Rightarrow> (error + string) \<times> nat" where
  \<comment> \<open>the chosen outcome and the next position of the random stream; reading
      \<open>.outcome\<close> of a missing element throws\<close>
  "selectOutcome cfg rnd k outcomes ctx =
     (case weigh_outcomes cfg ctx outcomes of
        Inl e \<Rightarrow> (Inl e, k)
      | Inr weighted0 \<Rightarrow>
          (let weighted = sort_by (\<lambda>a b. snd b < snd a) weighted0
           in if rnd k < creativityFactor cfg * 0.5
              then (let index = \<lfloor>rnd (k + 1) * real (min 3 (length weighted))\<rfloor>
                    in case pick weighted index of
                         None \<Rightarrow> (Inl TypeError, k + 2)
                       | Some w \<Rightarrow> (Inr (fst w), k + 2))
              else (case pick weighted 0 of
                      None \<Rightarrow> (Inl TypeError, k + 1)
                    | Some w \<Rightarrow> (Inr (fst w), k + 1))))"

definition generateBehaviorParameters ::
  "(nat \<Rightarrow> real) \<Rightarrow> nat \<Rightarrow> string \<Rightarrow> emergence_context \<Rightarrow> behavior_params \<times> nat" where
  "generateBehaviorParameters rnd k outcome ctx =
     (let params = \<lparr>intensity = rnd k * 0.5 + 0.5, duration = rnd (k + 1) * 5000 + 1000,
                    direction = None, speed = None, creationType = None, inspiration = None,
                    favorType = None, surpriseType = None\<rparr>;
          k = k + 2
      in if outcome = ''flee''
         then (params\<lparr>direction := Some (rnd k * pi * 2),
                       speed := Some (jadd (Num 0.8) (jmul (e_threat ctx) (Num 0.2)))\<rparr>, k + 1)
         else if outcome = ''create_something''
         then (params\<lparr>creationType :=
                         pick [''art'', ''story'', ''song'', ''invention''] \<lfloor>rnd k * 4\<rfloor>,
                       inspiration := Some (e_mood ctx)\<rparr>, k + 1)
         else if outcome = ''return_favor''
         then (params\<lparr>favorType :=
                         pick [''gift'', ''help'', ''information'', ''protection'']
                              \<lfloor>rnd k * 4\<rfloor>\<rparr>, k + 1)
         else if outcome = ''surprising_behavior''
         then (params\<lparr>surpriseType :=
                         pick [''dance'', ''joke'', ''magic_trick'', ''unexpected_gift'']
                              \<lfloor>rnd k * 4\<rfloor>\<rparr>, k + 1)
         else (params, k))"

definition shouldSuppress :: "behavior \<Rightarrow> emergence_context \<Rightarrow> bool" where
  "shouldSuppress b ctx = (action b = ''flee'' \<and> \<not> truthy (e_threat ctx))"

definition generateEmergentBehavior ::
  "emergence_config \<Rightarrow> real \<Rightarrow> (nat \<Rightarrow> real) \<Rightarrow> nat \<Rightarrow> pattern \<Rightarrow> emergence_context
     \<Rightarrow> (error + behavior option) \<times> nat" where
  \<comment> \<open>\<open>Inr None\<close> is the \<open>null\<close> of a suppressed behavior\<close>
  "generateEmergentBehavior cfg now rnd k pat ctx =
     (let b = \<lparr>b_id = EmergenceId now (rnd k), b_type = ''emergent'',
               b_pattern = Some (p_type pat), b_rules = p_rules pat,
               b_strength = p_strength pat, b_timestamp = Some now, action = [],
               creative = False, b_novelty = None, parameters = None,
               predictedConsequences = [], description = None, sourceBehaviors = [],
               steps = []\<rparr>;
          k = k + 1
      in case selectOutcome cfg rnd k (p_outcomes pat) ctx of
           (Inl e, k) \<Rightarrow> (Inl e, k)
         | (Inr outcome, k) \<Rightarrow>
             (let b = b\<lparr>action := outcome\<rparr>;
                  (b, k) = (if p_type pat = ''novel''
                            then (b\<lparr>creative := True,
                                    b_novelty := Some (rnd k * creativityFactor cfg)\<rparr>, k + 1)
                            else (b, k));
                  (params, k) = generateBehaviorParameters rnd k outcome ctx;
                  b = b\<lparr>parameters := Some params\<rparr>;
                  b = b\<lparr>predictedConsequences := [''state_change'', ''memory_formation'']\<rparr>
              in if shouldSuppress b ctx then (Inr None, k) else (Inr (Some b), k)))"

fun generate_all ::
  "emergence_config \<Rightarrow> real \<Rightarrow> (nat \<Rightarrow> real) \<Rightarrow> nat \<Rightarrow> pattern list \<Rightarrow> emergence_context
     \<Rightarrow> error + behavior list" where
  \<comment> \<open>the loop of \<open>checkEmergence\<close> over the patterns\<close>
  "generate_all cfg now rnd k [] ctx = Inr []"
| "generate_all cfg now rnd k (pat # pats) ctx =
     (if p_strength pat > emergenceThreshold cfg
      then (case generateEmergentBehavior cfg now rnd k pat ctx of
              (Inl e, k') \<Rightarrow> Inl e
            | (Inr None, k') \<Rightarrow> generate_all cfg now rnd k' pats ctx
            | (Inr (Some b), k') \<Rightarrow>
                (case generate_all cfg now rnd k' pats ctx of
                   Inl e \<Rightarrow> Inl e
                 | Inr bs \<Rightarrow> Inr (b # bs)))
      else generate_all cfg now rnd k pats ctx)"

definition combinations :: "(string \<times> string \<times> string) list" where
  "combinations =
     [(''create_something+express_emotion'',
       (''artistic_expression'', ''Express emotions through creation'')),
      (''play+surprising_behavior'', (''playful_prank'', ''Surprise others playfully'')),
      (''investigate+ask_questions'', (''deep_inquiry'', ''Pursue understanding deeply''))]"

definition meta_behavior :: behavior where
  \<comment> \<open>the fields a synthesized behavior does not have\<close>
  "meta_behavior =
     \<lparr>b_id = MetaId 0, b_type = [], b_pattern = None, b_rules = [], b_strength = 0,
      b_timestamp = None, action = [], creative = False, b_novelty = None,
      parameters = None, predictedConsequences = [], description = None,
      sourceBehaviors = [], steps = []\<rparr>"

definition analyzeBehaviorCombination :: "real \<Rightarrow> behavior \<Rightarrow> behavior \<Rightarrow> behavior option" where
  "analyzeBehaviorCombination now behavior1 behavior2 =
     (let key = action behavior1 @ ''+'' @ action behavior2
      in case map_of combinations key of
           None \<Rightarrow> None
         | Some (act, descr) \<Rightarrow>
             Some (meta_behavior
                     \<lparr>b_id := MetaId now, b_type := ''meta_emergent'', action := act,
                      description := Some descr,
                      sourceBehaviors := [b_id behavior1, b_id behavior2],
                      b_strength := (b_strength behavior1 + b_strength behavior2) / 2\<rparr>))"

definition analyzeSequence :: "real \<Rightarrow> behavior list \<Rightarrow> behavior option" where
  "analyzeSequence now behaviors =
     (if list_all (\<lambda>b. b_strength b > 0.6) behaviors
      then Some (meta_behavior
                   \<lparr>b_id := SequenceId now, b_type := ''behavioral_sequence'',
                    action := ''complex_plan'', steps := map action behaviors,
                    b_strength := sum_list (map b_strength behaviors) / real (length behaviors)\<rparr>)
      else None)"

definition checkMetaEmergence :: "real \<Rightarrow> behavior list \<Rightarrow> behavior list" where
  "checkMetaEmergence now behaviors =
     (if length behaviors \<ge> 2
      then concat (map (\<lambda>(b1, b2). case analyzeBehaviorCombination now b1 b2 of
                                       None \<Rightarrow> [] | Some combo \<Rightarrow> [combo])
                       (pairs_of behaviors))
           @ (if length behaviors \<ge> 3
              then (case analyzeSequence now behaviors of None \<Rightarrow> [] | Some sq \<Rightarrow> [sq])
              else [])
      else [])"

record engine =
  eng_config :: emergence_config
  emergentPatterns :: registry
  emergenceHistory :: "(behavior \<times> real) list"
  activeEmergences :: "(behavior_id \<times> behavior) list"

definition updateEmergenceHistory :: "real \<Rightarrow> behavior list \<Rightarrow> engine \<Rightarrow> engine" where
  "updateEmergenceHistory now behaviors eng =
     (let history = emergenceHistory eng @ map (\<lambda>b. (b, now)) behaviors;
          active = fold (\<lambda>b m. map_set (b_id b) b m) behaviors (activeEmergences eng);
          history = (if length history > 100 then drop (length history - 100) history
                     else history);
          active = filter (\<lambda>(i, b). \<not> (case b_timestamp b of
                                            None \<Rightarrow> False
                                          | Some t \<Rightarrow> now - t > 60000)) active
      in eng\<lparr>emergenceHistory := history, activeEmergences := active\<rparr>)"

definition checkEmergence ::
  "real \<Rightarrow> (nat \<Rightarrow> real) \<Rightarrow> npc_state \<Rightarrow> personality option \<Rightarrow> engine
     \<Rightarrow> (error + behavior list) \<times> engine" where
  \<comment> \<open>the returned list, or the error that rejects the call, and the engine afterwards\<close>
  "checkEmergence now rnd state pers eng =
     (let cfg = eng_config eng;
          ctx = buildContext now rnd state pers;
          ruleActivations = evaluateRules defineBehaviorRules ctx;
          (patterns, reg) = detectPatterns cfg now ruleActivations (emergentPatterns eng);
          eng = eng\<lparr>emergentPatterns := reg\<rparr>
      in case generate_all cfg now rnd 4 patterns ctx of
           Inl e \<Rightarrow> (Inl e, eng)
         | Inr emergentBehaviors \<Rightarrow>
             (let metaEmergences = checkMetaEmergence now emergentBehaviors;
                  emergentBehaviors = emergentBehaviors @ metaEmergences
              in (Inr emergentBehaviors, updateEmergenceHistory now emergentBehaviors eng)))"

record call =
  call_now :: real
  call_rnd :: "nat \<Rightarrow> real"
  call_state :: npc_state
  call_personality :: "personality option"

fun run_calls :: "call list \<Rightarrow> engine \<Rightarrow> (error + behavior list) list \<times> engine" where
  \<comment> \<open>a sequence of calls of \<open>checkEmergence\<close> on one engine\<close>
  "run_calls [] eng = ([], eng)"
| "run_calls (c # cs) eng =
     (let (r, eng1) = checkEmergence (call_now c) (call_rnd c) (call_state c)
                        (call_personality c) eng;
          (rs, eng2) = run_calls cs eng1
      in (r # rs, eng2))"

section \<open>Example values\<close>

text \<open>Concrete inputs at which the theorems below are instantiated.\<close>

definition plain_stimulus :: stimulus where
  "plain_stimulus =
     \<lparr>s_type = Some ''sound'', s_source = None, s_target = None, s_category = None,
      s_urgency = None, s_emotional = None, attentionWeight = NaN\<rparr>"

definition plain_context :: attention_context where
  "plain_context = \<lparr>c_goals = None, c_relationships = None\<rparr>"

definition fresh_mechanism :: attention_mechanism where
  \<comment> \<open>the state the constructor of \<open>AttentionMechanism\<close> builds\<close>
  "fresh_mechanism =
     \<lparr>am_config = default_attention_config, contextBuffer = [], weights = initializeWeights\<rparr>"


definition blank_memory :: memory where
  \<comment> \<open>an object with no field set\<close>
  "blank_memory =
     \<lparr>m_id = None, m_ownerId = None, m_type = None, m_category = None, m_content = None,
      m_context = None, m_emotionalContext = None, m_emotionalImpact = NaN,
      m_timestamp = NaN, m_importance = NaN, m_strength = NaN, m_accessCount = NaN,
      m_lastAccessed = NaN, m_consolidated = False, m_consolidatedAt = NaN,
      m_persisted = False, m_relevanceScore = None, m_associationStrength = None,
      m_associationType = None, m_relevance = None\<rparr>"

definition new_bank :: "string \<Rightarrow> bank" where
  \<comment> \<open>the state the constructors build, with the default configuration\<close>
  "new_bank owner =
     \<lparr>ownerId = owner, config = default_memory_config, heap = [],
      memories = (\<lambda>c. []), workingMemory = [], maxWorkingMemory = 20, associations = [],
      totalMemories = 0, strongestMemory = None, oldestMemory = None,
      idx_temporal = [], idx_contextual = [], idx_importance = [],
      consolidationQueue = [], forgottenMemories = 0\<rparr>"

definition plain_env :: js_env where
  "plain_env =
     \<lparr>fmt_number = (\<lambda>t. ''t''), fmt_random = (\<lambda>r. if r < 1 / 2 then ''a'' else ''r''),
      json_content = (\<lambda>c. c),
      json_context = (\<lambda>c. concat (map (\<lambda>kv. fst kv @ '':'' @ snd kv) c)),
      toLowerCase = (\<lambda>x. x)\<rparr>"

definition joyful_event :: memory where
  \<comment> \<open>\<open>{type: 'event', importance: 0.9, emotionalContext: {joy: 1}}\<close>\<close>
  "joyful_event =
     blank_memory\<lparr>m_type := Some ''event'', m_importance := Num 0.9,
                  m_emotionalContext := Some [(''joy'', Num 1)]\<rparr>"

definition vivid_event :: memory where
  \<comment> \<open>\<open>{type: 'event', importance: 1, strength: 1}\<close>\<close>
  "vivid_event =
     blank_memory\<lparr>m_type := Some ''event'', m_importance := Num 1, m_strength := Num 1\<rparr>"

definition relabelled_event :: memory where
  \<comment> \<open>\<open>{id: 'mine', type: 'event', strength: 0, accessCount: 7}\<close>\<close>
  "relabelled_event =
     blank_memory\<lparr>m_id := Some ''mine'', m_type := Some ''event'', m_strength := Num 0,
                  m_accessCount := Num 7\<rparr>"

definition type_query :: "string \<Rightarrow> query" where
  \<comment> \<open>\<open>{type: ty}\<close>\<close>
  "type_query ty =
     \<lparr>q_type = Some ty, q_context = None, q_associatedWith = None, q_timeRange = None,
      q_search = None, q_minImportance = NaN, q_category = None, q_limit = None\<rparr>"

definition faint_visit :: memory where
  \<comment> \<open>\<open>{type: 'event', context: {place: 'inn'}, importance: 0, strength: 0.05}\<close>\<close>
  "faint_visit =
     blank_memory\<lparr>m_type := Some ''event'', m_context := Some [(''place'', ''inn'')],
                  m_importance := Num 0, m_strength := Num 0.05\<rparr>"

definition vivid_visit :: memory where
  \<comment> \<open>\<open>{type: 'event', context: {place: 'inn'}, importance: 1}\<close>\<close>
  "vivid_visit =
     blank_memory\<lparr>m_type := Some ''event'', m_context := Some [(''place'', ''inn'')],
                  m_importance := Num 1\<rparr>"

definition visited_once :: bank where
  \<comment> \<open>the state after \<open>store(faint_visit)\<close> on a new bank at time 1000\<close>
  "visited_once =
     (new_bank ''npc'')
     \<lparr>heap := [faint_visit\<lparr>m_id := Some ''npc_t_r'', m_ownerId := Some ''npc'',
                            m_category := Some ''episodic'', m_timestamp := Num 1000,
                            m_accessCount := Num 0\<rparr>,
               vivid_visit],
      memories := (\<lambda>c. [])(Episodic := [(Some ''npc_t_r'', 0)]),
      workingMemory := [0],
      associations := [(Some ''npc_t_r'', [])],
      totalMemories := 1, strongestMemory := Some 0, oldestMemory := Some 0,
      idx_temporal := [(Num 0, [Some ''npc_t_r''])],
      idx_contextual := [(''place:inn'', [Some ''npc_t_r''])],
      idx_importance := [(Some ''npc_t_r'', Num 0)]\<rparr>"

definition linked_bank :: bank where
  \<comment> \<open>the state after \<open>store(vivid_visit)\<close> on \<open>visited_once\<close> at time 1000: the two
      records share a context entry and are linked both ways\<close>
  "linked_bank =
     (new_bank ''npc'')
     \<lparr>heap := [faint_visit\<lparr>m_id := Some ''npc_t_r'', m_ownerId := Some ''npc'',
                            m_category := Some ''episodic'', m_timestamp := Num 1000,
                            m_accessCount := Num 0\<rparr>,
               vivid_visit\<lparr>m_id := Some ''npc_t_a'', m_ownerId := Some ''npc'',
                            m_category := Some ''episodic'', m_timestamp := Num 1000,
                            m_strength := Num 0.5, m_accessCount := Num 0\<rparr>],
      memories := (\<lambda>c. [])(Episodic := [(Some ''npc_t_r'', 0), (Some ''npc_t_a'', 1)]),
      workingMemory := [1, 0],
      associations :=
        [(Some ''npc_t_r'',
          [\<lparr>targetId = Some ''npc_t_a'', a_strength = Num 0.5, a_type = Contextual\<rparr>]),
         (Some ''npc_t_a'',
          [\<lparr>targetId = Some ''npc_t_r'', a_strength = Num 0.5, a_type = Contextual\<rparr>])],
      totalMemories := 2, strongestMemory := Some 1, oldestMemory := Some 0,
      idx_temporal := [(Num 0, [Some ''npc_t_r'', Some ''npc_t_a''])],
      idx_contextual := [(''place:inn'', [Some ''npc_t_r'', Some ''npc_t_a''])],
      idx_importance := [(Some ''npc_t_a'', Num 1), (Some ''npc_t_r'', Num 0)],
      consolidationQueue := [1]\<rparr>"

definition quiet_event :: memory where
  \<comment> \<open>\<open>{type: 'event', importance: 0}\<close>\<close>
  "quiet_event = blank_memory\<lparr>m_type := Some ''event'', m_importance := Num 0\<rparr>"

definition quiet_bank :: bank where
  \<comment> \<open>the state after \<open>store(quiet_event)\<close> on a new bank at time 1000\<close>
  "quiet_bank =
     (new_bank ''npc'')
     \<lparr>heap := [quiet_event\<lparr>m_id := Some ''npc_t_r'', m_ownerId := Some ''npc'',
                            m_category := Some ''episodic'', m_timestamp := Num 1000,
                            m_strength := Num 0.5, m_accessCount := Num 0\<rparr>],
      memories := (\<lambda>c. [])(Episodic := [(Some ''npc_t_r'', 0)]),
      workingMemory := [0],
      associations := [(Some ''npc_t_r'', [])],
      totalMemories := 1, strongestMemory := Some 0, oldestMemory := Some 0,
      idx_temporal := [(Num 0, [Some ''npc_t_r''])],
      idx_importance := [(Some ''npc_t_r'', Num 0)]\<rparr>"

definition calm_state :: npc_state where
  "calm_state =
     \<lparr>st_awareness = Num 0.1, st_energy = NaN, st_socialNeed = NaN, st_threat = Num 0,
      st_growthNeed = NaN, st_emotionalContext = None, st_nearbyEntities = None,
      st_goals = None, st_emotionalEnergy = NaN\<rparr>"

definition even_personality :: personality where
  "even_personality =
     \<lparr>agreeableness = Num 0.5, curiosity = Num 0.5, creativity = Num 0.5, courage = Num 0.5,
      openness = Num 0.5\<rparr>"

definition new_engine :: engine where
  "new_engine =
     \<lparr>eng_config = default_emergence_config, emergentPatterns = Map.empty,
      emergenceHistory = [], activeEmergences = []\<rparr>"

definition kind_rnd :: "nat \<Rightarrow> real" where
  "kind_rnd n = (if n = 0 then 0.9 else 0.4)"

definition kind_call :: call where
  "kind_call =
     \<lparr>call_now = 1000, call_rnd = kind_rnd, call_state = calm_state,
      call_personality = Some even_personality\<rparr>"

definition flee_pattern :: pattern where
  "flee_pattern =
     \<lparr>p_type = ''single'', p_rules = [''self_preservation''], p_strength = 0.9,
      p_outcomes = [''flee'', ''hide'', ''defend'']\<rparr>"




subsection \<open>Notions used to state the history of the pattern registry\<close>





subsection \<open>Notions used to state the effect of a forgetting pass\<close>

definition evicted :: "real \<Rightarrow> real \<Rightarrow> memory \<Rightarrow> bool" where
  \<comment> \<open>not accessed within the last 60 seconds, and the decayed strength is below 0.1\<close>
  "evicted rate now m =
     (\<not> recently_accessed now m \<and> jlt (decayed_strength rate now m) (Num 0.1))"

definition forget_one :: "real \<Rightarrow> real \<Rightarrow> memory \<Rightarrow> memory" where
  "forget_one rate now m =
     (if recently_accessed now m then m else m\<lparr>m_strength := decayed_strength rate now m\<rparr>)"

definition to_remove :: "real \<Rightarrow> bank \<Rightarrow> category \<Rightarrow> ident list" where
  "to_remove now s c =
     map fst (filter (\<lambda>e. evicted (forgettingRate (config s)) now (heap s ! snd e))
                     (memories s c))"

definition forgotten_ids :: "real \<Rightarrow> bank \<Rightarrow> ident list" where
  "forgotten_ids now s = concat (map (to_remove now s) categories)"

definition well_formed :: "bank \<Rightarrow> bool" where
  \<comment> \<open>every stored reference denotes an object, and no object is stored twice\<close>
  "well_formed s =
     (distinct (all_entries s) \<and> list_all (\<lambda>a. a < length (heap s)) (all_entries s))"

definition known_category :: "memory \<Rightarrow> bool" where
  \<comment> \<open>the object names no category, or one of the four\<close>
  "known_category m =
     (\<not> truthy_str (m_category m) \<or> parse_category (the (m_category m)) \<noteq> None)"

section \<open>Facts about the number layer\<close>

lemma jgt_Num [simp]: "jgt (Num a) (Num b) = (b < a)"
  by (simp add: jgt_def)

lemma jge_Num [simp]: "jge (Num a) (Num b) = (b \<le> a)"
  by (simp add: jge_def)

lemma jmul_Num [simp]: "jmul (Num a) (Num b) = Num (a * b)"
  by (simp add: jmul_def)

lemma jadd_Num [simp]: "jadd (Num a) (Num b) = Num (a + b)"
  by (simp add: jadd_def)

lemma jsub_Num [simp]: "jsub (Num a) (Num b) = Num (a - b)"
  by (simp add: jsub_def)

lemma jmin_Num [simp]: "jmin (Num a) (Num b) = Num (min a b)"
  by (simp add: jmin_def)

lemma jmax_Num [simp]: "jmax (Num a) (Num b) = Num (max a b)"
  by (simp add: jmax_def)

section \<open>Attention: novelty\<close>

lemma calculateSimilarity_nonneg: "0 \<le> calculateSimilarity s p"
  by (simp add: calculateSimilarity_def Let_def)

lemma calculateSimilarity_le: "calculateSimilarity s p \<le> 3 / 10"
  by (simp add: calculateSimilarity_def Let_def)

lemma min_min_one_minus: "min (min a (1 - b)) (1 - c) = min (a::real) (1 - max b c)"
  by (auto simp: min_def max_def)

lemma novelty_fold:
  "(a::real) \<le> 1 \<Longrightarrow> fold (\<lambda>past novelty. min novelty (1 - f past)) xs a
     = (if xs = [] then a else min a (1 - Max (f ` set xs)))"
proof (induction xs arbitrary: a)
  case Nil
  then show ?case by simp
next
  case (Cons x xs)
  have le: "min a (1 - f x) \<le> 1" using Cons.prems by (simp add: min_def)
  show ?case
  proof (cases "xs = []")
    case True
    then show ?thesis by simp
  next
    case False
    have m: "Max (f ` set (x # xs)) = max (f x) (Max (f ` set xs))"
      using False by simp
    have "fold (\<lambda>past novelty. min novelty (1 - f past)) (x # xs) a
            = min (min a (1 - f x)) (1 - Max (f ` set xs))"
      using False Cons.IH[OF le] by simp
    also have "\<dots> = min a (1 - max (f x) (Max (f ` set xs)))"
      by (rule min_min_one_minus)
    finally show ?thesis using m by simp
  qed
qed

lemma max_similarity_le:
  "contextBuffer am \<noteq> [] \<Longrightarrow> Max (calculateSimilarity stim ` set (contextBuffer am)) \<le> 3 / 10"
proof -
  assume ne: "contextBuffer am \<noteq> []"
  have "\<forall>a \<in> calculateSimilarity stim ` set (contextBuffer am). a \<le> 3 / 10"
    using calculateSimilarity_le by blast
  then show ?thesis using ne by (subst Max_le_iff) simp_all
qed

text \<open>
  Claim C9, as stated: the novelty feature is 0.5 when the context buffer is empty.
  In the code the loop over an empty buffer leaves the initial value 1; 0.5 is what the
  guard returns when the stimulus or the context is missing. With the constructor's
  mechanism (empty buffer), a stimulus and a context, novelty is 1 and the salience is
  0.3 * 1 + 0.25 * 0.3 + 0.2 * 0.3 = 0.435.
\<close>

theorem novelty_empty_buffer_counterexample:
  "contextBuffer fresh_mechanism = []
   \<and> calculateNovelty fresh_mechanism (Some plain_stimulus) (Some plain_context) = 1
   \<and> calculateNovelty fresh_mechanism (Some plain_stimulus) (Some plain_context) \<noteq> 0.5
   \<and> calculateSalience fresh_mechanism (Some plain_stimulus) (Some plain_context)
       = Inr (Num 0.435)"
  by (simp add: fresh_mechanism_def plain_stimulus_def plain_context_def calculateNovelty_def
      calculateSalience_def calculateRelevance_def calculateUrgency_def
      calculateEmotionalIntensity_stimulus_def calculateSocialImportance_def
      initializeWeights_def)

text \<open>
  Claim C9, amended: for a stimulus and a context that are both present, the novelty
  feature used by \<open>calculateSalience\<close> is 1 minus the maximum similarity between the
  stimulus and the items of the context buffer when the buffer is not empty, and is 1
  when the buffer is empty; 0.5 is returned only when the stimulus or the context is
  missing: it is returned when either is missing or both are, and never when both are
  present (a similarity is at most 0.3, so the novelty is then at least 0.7).
\<close>

theorem novelty_is_one_minus_max_similarity:
  "calculateNovelty am (Some stim) (Some ctx) =
     (if contextBuffer am = [] then 1
      else 1 - Max (calculateSimilarity stim ` set (contextBuffer am)))
   \<and> calculateNovelty am None (Some ctx) = 0.5
   \<and> calculateNovelty am (Some stim) None = 0.5
   \<and> calculateNovelty am None None = 0.5
   \<and> calculateNovelty am (Some stim) (Some ctx) \<noteq> 0.5
   \<and> (calculateNovelty am stimulus context = 0.5 \<longleftrightarrow> stimulus = None \<or> context = None)"
proof -
  have main: "calculateNovelty am (Some s) (Some c) =
     (if contextBuffer am = [] then 1
      else 1 - Max (calculateSimilarity s ` set (contextBuffer am)))" for s c
  proof (cases "contextBuffer am = []")
    case True
    then show ?thesis by (simp add: calculateNovelty_def)
  next
    case False
    then obtain p where p: "p \<in> set (contextBuffer am)"
      by (cases "contextBuffer am") auto
    have "0 \<le> calculateSimilarity s p" by (rule calculateSimilarity_nonneg)
    also have "\<dots> \<le> Max (calculateSimilarity s ` set (contextBuffer am))"
      using p by simp
    finally have "0 \<le> Max (calculateSimilarity s ` set (contextBuffer am))" .
    then show ?thesis using False
      by (simp add: calculateNovelty_def novelty_fold[where f = "calculateSimilarity s"])
  qed
  have high: "7 / 10 \<le> calculateNovelty am (Some s) (Some c)" for s c
  proof (cases "contextBuffer am = []")
    case True
    then show ?thesis by (simp add: main)
  next
    case False
    from max_similarity_le[OF False, of s] show ?thesis using False by (simp add: main)
  qed
  have present: "calculateNovelty am (Some s) (Some c) \<noteq> 0.5" for s c
    using high[of s c] by simp
  have missing: "calculateNovelty am None c = 0.5" "calculateNovelty am s None = 0.5" for s c
    by (simp_all add: calculateNovelty_def split: option.splits)
  have iff: "calculateNovelty am stimulus context = 0.5 \<longleftrightarrow> stimulus = None \<or> context = None"
  proof (cases stimulus)
    case None
    then show ?thesis by (simp add: missing)
  next
    case (Some s)
    show ?thesis
    proof (cases "context")
      case None
      then show ?thesis by (simp add: missing)
    next
      case (Some c)
      then show ?thesis using \<open>stimulus = Some s\<close> present[of s c] by simp
    qed
  qed
  show ?thesis using main[of stim ctx] present[of stim ctx] missing iff by simp
qed

theorem novelty_is_one_minus_max_similarity_witness:
  "calculateNovelty (fresh_mechanism\<lparr>contextBuffer := [plain_stimulus]\<rparr>)
     (Some (plain_stimulus\<lparr>s_type := Some ''sight''\<rparr>)) (Some plain_context) = 1 - 7 / 30
   \<and> calculateNovelty (fresh_mechanism\<lparr>contextBuffer := [plain_stimulus]\<rparr>)
     (Some (plain_stimulus\<lparr>s_type := Some ''sight''\<rparr>)) (Some plain_context) \<noteq> 0.5
   \<and> calculateNovelty (fresh_mechanism\<lparr>contextBuffer := [plain_stimulus]\<rparr>)
       None (Some plain_context) = 0.5"
  using novelty_is_one_minus_max_similarity
    [of "fresh_mechanism\<lparr>contextBuffer := [plain_stimulus]\<rparr>"
        "plain_stimulus\<lparr>s_type := Some ''sight''\<rparr>" plain_context]
  by (simp add: fresh_mechanism_def plain_stimulus_def calculateSimilarity_def)

section \<open>Attention: focus inertia\<close>




section \<open>Memory: facts about \<open>store\<close>\<close>

lemma deref_Some [simp]: "a < length h \<Longrightarrow> deref h a = Some (h ! a)"
  by (simp add: deref_def)

lemma deref_None [simp]: "\<not> a < length h \<Longrightarrow> deref h a = None"
  by (simp add: deref_def)

lemma heap_updateWorkingMemory [simp]: "heap (updateWorkingMemory a s) = heap s"
  by (simp add: updateWorkingMemory_def Let_def)

lemma heap_createAssociations [simp]: "heap (createAssociations a s) = heap s"
  by (simp add: createAssociations_def Let_def split: option.splits)

lemma heap_updateIndices [simp]: "heap (updateIndices a s) = heap s"
  by (simp add: updateIndices_def Let_def split: option.splits)

lemma heap_update_stats [simp]: "heap (update_stats a s) = heap s"
  by (simp add: update_stats_def Let_def split: option.splits)

lemma memories_updateWorkingMemory [simp]: "memories (updateWorkingMemory a s) = memories s"
  by (simp add: updateWorkingMemory_def Let_def)

lemma memories_createAssociations [simp]: "memories (createAssociations a s) = memories s"
  by (simp add: createAssociations_def Let_def split: option.splits)

lemma memories_updateIndices [simp]: "memories (updateIndices a s) = memories s"
  by (simp add: updateIndices_def Let_def split: option.splits)

lemma memories_update_stats [simp]: "memories (update_stats a s) = memories s"
  by (simp add: update_stats_def Let_def split: option.splits)

lemma categorize_assign_fields [simp]:
  "categorizeMemory (assign_fields env owner now rnd m) = categorizeMemory m"
  by (simp add: assign_fields_def categorizeMemory_def)

lemma store_effect:
  assumes "a < length (heap s)"
    and "parse_category (categorizeMemory (heap s ! a)) = Some c"
  shows "\<exists>s'. store env now rnd a s
               = Inr (m_id (store_fields env (ownerId s) (config s) now rnd (heap s ! a)), s')
     \<and> heap s' = (heap s)[a := store_fields env (ownerId s) (config s) now rnd (heap s ! a)]
     \<and> memories s' =
         (memories s)(c := map_set (m_id (store_fields env (ownerId s) (config s) now rnd
                                            (heap s ! a))) a (memories s c))"
  using assms by (simp add: store_def Let_def)

lemma emotional_boost_fields [simp]:
  "m_id (emotional_boost cfg m) = m_id m"
  "m_accessCount (emotional_boost cfg m) = m_accessCount m"
  "m_strength (emotional_boost cfg m) = m_strength m"
  "m_category (emotional_boost cfg m) = m_category m"
  by (simp_all add: emotional_boost_def Let_def split: option.splits)

lemma store_fields_id [simp]:
  "m_id (store_fields env owner cfg now rnd m) = Some (gen_id env owner now rnd)"
  by (simp add: store_fields_def assign_fields_def Let_def)

lemma store_fields_accessCount [simp]:
  "m_accessCount (store_fields env owner cfg now rnd m) = Num 0"
  by (simp add: store_fields_def assign_fields_def Let_def)

lemma store_fields_strength [simp]:
  "m_strength (store_fields env owner cfg now rnd m) = jor (m_strength m) (Num 0.5)"
  by (simp add: store_fields_def assign_fields_def Let_def)

lemma categorize_given:
  "truthy_str (m_category m) \<Longrightarrow> categorizeMemory m = the (m_category m)"
  by (auto simp add: categorizeMemory_def)

lemma categorize_default:
  "\<not> truthy_str (m_category m) \<Longrightarrow>
     categorizeMemory m = ''episodic'' \<or> categorizeMemory m = ''semantic''
     \<or> categorizeMemory m = ''procedural'' \<or> categorizeMemory m = ''emotional''"
  by (auto simp add: categorizeMemory_def)

lemma parse_category_names [simp]:
  "parse_category ''episodic'' = Some Episodic"
  "parse_category ''semantic'' = Some Semantic"
  "parse_category ''procedural'' = Some Procedural"
  "parse_category ''emotional'' = Some Emotional"
  by (simp_all add: parse_category_def)

lemma map_of_map_set [simp]:
  "map_of (map_set k v xs) k' = (if k' = k then Some v else map_of xs k')"
  by (induction xs) auto

lemma jor_half_nonzero: "jor v (Num 0.5) \<noteq> Num 0"
  by (cases v) (simp_all add: jor_def)

lemma known_category_parse:
  "known_category m \<longleftrightarrow> parse_category (categorizeMemory m) \<noteq> None"
proof (cases "truthy_str (m_category m)")
  case True
  then show ?thesis by (simp add: known_category_def categorize_given)
next
  case False
  then show ?thesis using categorize_default[OF False]
    by (auto simp add: known_category_def)
qed

lemmas store_defs = store_def store_fields_def assign_fields_def emotional_boost_def
  categorizeMemory_def truthy_str_def parse_category_def gen_id_def
  calculateEmotionalIntensity_memory_def mean_intensity_def jor_def
  updateWorkingMemory_def createAssociations_def updateIndices_def update_stats_def
  findByContext_def queryByContext_def getMemoryById_def categories_def

lemmas example_defs = new_bank_def blank_memory_def plain_env_def default_memory_config_def

text \<open>
  Claim C10: whatever object is passed to \<open>store\<close> (and whatever id, access count and
  strength it carries), the stored record has the id generated from the owner, the clock
  and the random source, access count 0, and a strength that is the supplied one when that
  is a non-zero number and 0.5 otherwise (so never 0); the record is held under the new id.
  The call returns, unless the object names an unknown category: then it throws and
  nothing is stored.
\<close>

theorem store_overwrites_id_and_defaults:
  assumes "a < length (heap s)"
  shows "if known_category (heap s ! a)
    then (\<exists>s' c. store env now rnd a s = Inr (Some (gen_id env (ownerId s) now rnd), s')
       \<and> map_of (memories s' c) (Some (gen_id env (ownerId s) now rnd)) = Some a
       \<and> a < length (heap s')
       \<and> m_id (heap s' ! a) = Some (gen_id env (ownerId s) now rnd)
       \<and> m_accessCount (heap s' ! a) = Num 0
       \<and> m_strength (heap s' ! a) =
           (if truthy (m_strength (heap s ! a)) then m_strength (heap s ! a) else Num 0.5)
       \<and> m_strength (heap s' ! a) \<noteq> Num 0)
    else store env now rnd a s = Inl TypeError"
proof (cases "known_category (heap s ! a)")
  case True
  let ?m = "store_fields env (ownerId s) (config s) now rnd (heap s ! a)"
  from True obtain c where c: "parse_category (categorizeMemory (heap s ! a)) = Some c"
    by (auto simp add: known_category_parse)
  from store_effect[OF assms c] obtain s' where
    s': "store env now rnd a s = Inr (m_id ?m, s')" "heap s' = (heap s)[a := ?m]"
      "memories s' = (memories s)(c := map_set (m_id ?m) a (memories s c))"
    by blast
  have m: "heap s' ! a = ?m" and len: "a < length (heap s')" using s'(2) assms by simp_all
  have "store env now rnd a s = Inr (Some (gen_id env (ownerId s) now rnd), s')
       \<and> map_of (memories s' c) (Some (gen_id env (ownerId s) now rnd)) = Some a
       \<and> a < length (heap s')
       \<and> m_id (heap s' ! a) = Some (gen_id env (ownerId s) now rnd)
       \<and> m_accessCount (heap s' ! a) = Num 0
       \<and> m_strength (heap s' ! a) =
           (if truthy (m_strength (heap s ! a)) then m_strength (heap s ! a) else Num 0.5)
       \<and> m_strength (heap s' ! a) \<noteq> Num 0"
    using s'(1) s'(3) len jor_half_nonzero[of "m_strength (heap s ! a)"]
    by (simp add: m jor_def)
  then show ?thesis using True by (simp only: if_True) blast
next
  case False
  then have "parse_category (categorizeMemory (heap s ! a)) = None"
    by (simp add: known_category_parse)
  then show ?thesis using False assms
    by (simp add: store_def Let_def)
qed

theorem store_overwrites_id_and_defaults_witness:
  "\<exists>s'. store plain_env 1000 0.5 0 ((new_bank ''npc'')\<lparr>heap := [relabelled_event]\<rparr>)
           = Inr (Some ''npc_t_r'', s')
     \<and> m_id (heap s' ! 0) = Some ''npc_t_r''
     \<and> m_accessCount (heap s' ! 0) = Num 0
     \<and> m_strength (heap s' ! 0) = Num 0.5"
  using store_overwrites_id_and_defaults
    [of 0 "(new_bank ''npc'')\<lparr>heap := [relabelled_event]\<rparr>" plain_env 1000 "0.5"]
  by (auto simp add: example_defs relabelled_event_def known_category_def truthy_str_def
      gen_id_def)

section \<open>Memory: the bounds on strength and importance\<close>

text \<open>
  Claim C1 says that strength and importance stay in [0,1] after every public operation,
  and names the emotional boost of \<open>store\<close> and the retention bonus of
  \<open>processForgetting\<close>. Neither is clamped. Starting from the constructor's state:
  storing \<open>{type: 'event', importance: 0.9, emotionalContext: {joy: 1}}\<close> leaves the
  record with importance 0.9 * (1 + 1 * 1.5) = 2.25; storing
  \<open>{type: 'event', importance: 1, strength: 1}\<close> at time 1000 and running
  \<open>processForgetting\<close> at time 1000 leaves it with strength 1 * exp 0 + 0.3 = 1.3.
\<close>

theorem store_and_forgetting_exceed_one:
  "(\<exists>s1. store plain_env 1000 0.5 0 ((new_bank ''npc'')\<lparr>heap := [joyful_event]\<rparr>)
            = Inr (Some ''npc_t_r'', s1)
      \<and> memories s1 Episodic = [(Some ''npc_t_r'', 0)]
      \<and> m_importance (heap s1 ! 0) = Num 2.25)
   \<and> (\<exists>s1. store plain_env 1000 0.5 0 ((new_bank ''npc'')\<lparr>heap := [vivid_event]\<rparr>)
            = Inr (Some ''npc_t_r'', s1)
      \<and> m_strength (heap s1 ! 0) = Num 1 \<and> m_importance (heap s1 ! 0) = Num 1
      \<and> memories (processForgetting 1000 s1) Episodic = [(Some ''npc_t_r'', 0)]
      \<and> m_strength (heap (processForgetting 1000 s1) ! 0) = Num 1.3)"
proof -
  have a: "\<exists>s1. store plain_env 1000 0.5 0 ((new_bank ''npc'')\<lparr>heap := [joyful_event]\<rparr>)
            = Inr (Some ''npc_t_r'', s1)
      \<and> memories s1 Episodic = [(Some ''npc_t_r'', 0)]
      \<and> m_importance (heap s1 ! 0) = Num 2.25"
    by (simp add: store_defs example_defs joyful_event_def Let_def)
  have b: "\<exists>s1. store plain_env 1000 0.5 0 ((new_bank ''npc'')\<lparr>heap := [vivid_event]\<rparr>)
            = Inr (Some ''npc_t_r'', s1)
      \<and> m_strength (heap s1 ! 0) = Num 1 \<and> m_importance (heap s1 ! 0) = Num 1
      \<and> memories (processForgetting 1000 s1) Episodic = [(Some ''npc_t_r'', 0)]
      \<and> m_strength (heap (processForgetting 1000 s1) ! 0) = Num 1.3"
    by (simp add: store_defs example_defs vivid_event_def Let_def
        processForgetting_def forget_category_def recently_accessed_def
        decayed_strength_def decayFactor_def retentionBonus_def)
  show ?thesis using a b by (rule conjI)
qed

section \<open>Memory: \<open>query\<close> and the access counts\<close>

text \<open>
  Claim C4 says that \<open>query\<close> increments the access count of every returned record in
  the store itself. \<open>_rankByRelevance\<close> replaces every result by a copy
  (\<open>{...memory, relevanceScore}\<close>), so the loop that counts the access writes to the
  copies. Starting from the constructor's state, storing an event and querying
  \<open>{type: 'event'}\<close> at time 5000 returns one object (a new one, at address 1) with
  access count 1 and \<open>lastAccessed\<close> 5000, while the stored object (address 0) is
  unchanged: access count 0 and no \<open>lastAccessed\<close>.
\<close>

theorem query_counts_access_on_copies:
  "\<exists>s1 s2. store plain_env 1000 0.5 0 ((new_bank ''npc'')\<lparr>heap := [joyful_event]\<rparr>)
             = Inr (Some ''npc_t_r'', s1)
     \<and> query plain_env 5000 (type_query ''event'') s1 = ([1], s2)
     \<and> memories s2 Episodic = [(Some ''npc_t_r'', 0)]
     \<and> heap s2 ! 0 = heap s1 ! 0
     \<and> m_accessCount (heap s2 ! 0) = Num 0 \<and> m_lastAccessed (heap s2 ! 0) = NaN
     \<and> m_accessCount (heap s2 ! 1) = Num 1 \<and> m_lastAccessed (heap s2 ! 1) = Num 5000"
  by (simp add: store_defs example_defs joyful_event_def Let_def
      query_def queryByType_def all_entries_def rankByRelevance_def sort_desc_def
      key_of_def opt_num_def type_query_def)

section \<open>Memory: \<open>consolidate\<close>\<close>

lemma map_of_strengthen_associations:
  "map_of (strengthen_associations i xs) k =
     (if k = i then map_option (map strengthen) (map_of xs i) else map_of xs k)"
  by (induction xs) auto

text \<open>
  Claim C7: \<open>consolidate\<close> is idempotent. A second call on the result of a first call
  returns the same state, whatever the two clock readings. On an object that is not yet
  consolidated the first call sets strength to min(1, strength * 1.5), marks it
  consolidated, and replaces each association in the record's list by one with strength
  min(1, strength * 1.2) and the same target and kind; every other list stays as it is.
  On an object that is already consolidated the call changes nothing.
\<close>

theorem consolidate_idempotent:
  "(consolidate now a s = Inr s1 \<longrightarrow> consolidate now' a s1 = Inr s1)
   \<and> (a < length (heap s) \<longrightarrow>
        (\<exists>s1. consolidate now a s = Inr s1 \<and> consolidate now' a s1 = Inr s1
           \<and> a < length (heap s1) \<and> m_consolidated (heap s1 ! a)
           \<and> (\<not> m_consolidated (heap s ! a) \<longrightarrow>
                 m_strength (heap s1 ! a) = jmin (Num 1) (jmul (m_strength (heap s ! a)) (Num 1.5))
               \<and> (\<forall>x. m_strength (heap s ! a) = Num x \<longrightarrow>
                        m_strength (heap s1 ! a) = Num (min 1 (x * 1.5)))
               \<and> (\<forall>k. map_of (associations s1) k =
                        (if k = m_id (heap s ! a)
                         then map_option (map strengthen) (map_of (associations s) k)
                         else map_of (associations s) k))
               \<and> (\<forall>e x. a_strength e = Num x \<longrightarrow>
                        a_strength (strengthen e) = Num (min 1 (x * 1.2))
                        \<and> targetId (strengthen e) = targetId e
                        \<and> a_type (strengthen e) = a_type e))
           \<and> (m_consolidated (heap s ! a) \<longrightarrow> s1 = s)))"
proof -
  have idem: "consolidate now' a s1 = Inr s1" if "consolidate now a s = Inr s1" for s1
  proof (cases "a < length (heap s)")
    case False
    then show ?thesis using that by (simp add: consolidate_def)
  next
    case True
    show ?thesis
    proof (cases "m_consolidated (heap s ! a)")
      case c: True
      then have "s1 = s" using that True by (simp add: consolidate_def)
      then show ?thesis using c True by (simp add: consolidate_def)
    next
      case c: False
      then have "a < length (heap s1) \<and> m_consolidated (heap s1 ! a)"
        using that True by (auto simp add: consolidate_def Let_def)
      then show ?thesis by (simp add: consolidate_def)
    qed
  qed
  have eff: "\<exists>s1. consolidate now a s = Inr s1 \<and> a < length (heap s1)
           \<and> m_consolidated (heap s1 ! a)
           \<and> (\<not> m_consolidated (heap s ! a) \<longrightarrow>
                 m_strength (heap s1 ! a) = jmin (Num 1) (jmul (m_strength (heap s ! a)) (Num 1.5))
               \<and> associations s1 = strengthen_associations (m_id (heap s ! a)) (associations s))
           \<and> (m_consolidated (heap s ! a) \<longrightarrow> s1 = s)" if "a < length (heap s)"
    using that by (simp add: consolidate_def Let_def)
  have str: "a_strength (strengthen e) = Num (min 1 (x * 1.2))
                        \<and> targetId (strengthen e) = targetId e \<and> a_type (strengthen e) = a_type e"
    if "a_strength e = Num x" for e x
    using that by (simp add: strengthen_def)
  show ?thesis
  proof (intro conjI impI)
    assume "consolidate now a s = Inr s1"
    then show "consolidate now' a s1 = Inr s1" by (rule idem)
  next
    assume "a < length (heap s)"
    from eff[OF this] obtain s1 where s1: "consolidate now a s = Inr s1" "a < length (heap s1)"
      "m_consolidated (heap s1 ! a)"
      "\<not> m_consolidated (heap s ! a) \<Longrightarrow>
                 m_strength (heap s1 ! a) = jmin (Num 1) (jmul (m_strength (heap s ! a)) (Num 1.5))
               \<and> associations s1 = strengthen_associations (m_id (heap s ! a)) (associations s)"
      "m_consolidated (heap s ! a) \<Longrightarrow> s1 = s"
      by blast
    show "\<exists>s1. consolidate now a s = Inr s1 \<and> consolidate now' a s1 = Inr s1
           \<and> a < length (heap s1) \<and> m_consolidated (heap s1 ! a)
           \<and> (\<not> m_consolidated (heap s ! a) \<longrightarrow>
                 m_strength (heap s1 ! a) = jmin (Num 1) (jmul (m_strength (heap s ! a)) (Num 1.5))
               \<and> (\<forall>x. m_strength (heap s ! a) = Num x \<longrightarrow>
                        m_strength (heap s1 ! a) = Num (min 1 (x * 1.5)))
               \<and> (\<forall>k. map_of (associations s1) k =
                        (if k = m_id (heap s ! a)
                         then map_option (map strengthen) (map_of (associations s) k)
                         else map_of (associations s) k))
               \<and> (\<forall>e x. a_strength e = Num x \<longrightarrow>
                        a_strength (strengthen e) = Num (min 1 (x * 1.2))
                        \<and> targetId (strengthen e) = targetId e
                        \<and> a_type (strengthen e) = a_type e))
           \<and> (m_consolidated (heap s ! a) \<longrightarrow> s1 = s)"
      apply (rule exI[of _ s1])
      using s1 idem[OF s1(1)] str
      by (auto simp add: map_of_strengthen_associations)
  qed
qed

theorem consolidate_idempotent_witness:
  "\<exists>s1. consolidate 10 0 ((new_bank ''npc'')\<lparr>heap := [vivid_event\<lparr>m_strength := Num 0.5\<rparr>]\<rparr>)
          = Inr s1
     \<and> consolidate 20 0 s1 = Inr s1
     \<and> m_strength (heap s1 ! 0) = Num 0.75"
proof -
  let ?b = "(new_bank ''npc'')\<lparr>heap := [vivid_event\<lparr>m_strength := Num 0.5\<rparr>]\<rparr>"
  have len: "0 < length (heap ?b)" by simp
  have nc: "\<not> m_consolidated (heap ?b ! 0)" by (simp add: vivid_event_def blank_memory_def)
  have st: "m_strength (heap ?b ! 0) = Num 0.5" by simp
  from consolidate_idempotent[of 10 0 ?b ?b 20] len obtain s1 where
    s1: "consolidate 10 0 ?b = Inr s1" "consolidate 20 0 s1 = Inr s1"
      "\<not> m_consolidated (heap ?b ! 0) \<longrightarrow>
         (\<forall>x. m_strength (heap ?b ! 0) = Num x \<longrightarrow> m_strength (heap s1 ! 0) = Num (min 1 (x * 1.5)))"
    by blast
  from s1(3) nc st have "m_strength (heap s1 ! 0) = Num (min 1 (0.5 * 1.5))" by blast
  then have "m_strength (heap s1 ! 0) = Num 0.75" by simp
  with s1(1,2) show ?thesis by blast
qed


section \<open>Memory: the forgetting pass\<close>

lemma forget_scan_length [simp]:
  "length (fst (forget_scan rate now es h)) = length h"
  by (induction es arbitrary: h) (auto simp add: Let_def case_prod_unfold split: option.splits)

lemma forget_scan_other:
  "b \<notin> snd ` set es \<Longrightarrow> fst (forget_scan rate now es h) ! b = h ! b"
proof (induction es arbitrary: h)
  case Nil
  then show ?case by simp
next
  case (Cons e es)
  obtain i a where e: "e = (i, a)" by (cases e)
  from Cons.prems e have ne: "b \<noteq> a" and nin: "b \<notin> snd ` set es" by auto
  show ?case using Cons.IH[OF nin] ne e
    by (auto simp add: Let_def deref_def case_prod_unfold)
qed

lemma forget_scan_nth:
  assumes "distinct (map snd es)" and "\<forall>a \<in> snd ` set es. a < length h" and "b \<in> snd ` set es"
  shows "fst (forget_scan rate now es h) ! b = forget_one rate now (h ! b)"
  using assms
proof (induction es arbitrary: h)
  case Nil
  then show ?case by simp
next
  case (Cons e es)
  obtain i a where e: "e = (i, a)" by (cases e)
  from Cons.prems e have a_len: "a < length h" and a_nin: "a \<notin> snd ` set es"
    and d: "distinct (map snd es)" and len: "\<forall>x \<in> snd ` set es. x < length h"
    by auto
  show ?case
  proof (cases "b = a")
    case True
    then show ?thesis using e a_len a_nin forget_scan_other[of a es]
      by (auto simp add: Let_def forget_one_def case_prod_unfold)
  next
    case False
    with Cons.prems e have bin: "b \<in> snd ` set es" by auto
    have IH1: "fst (forget_scan rate now es h) ! b = forget_one rate now (h ! b)"
      using Cons.IH[OF d len bin] .
    have IH2: "fst (forget_scan rate now es (h[a := m])) ! b = forget_one rate now (h ! b)" for m
      using Cons.IH[of "h[a := m]", OF d _ bin] len False by simp
    show ?thesis using e a_len IH1 IH2
      by (auto simp add: Let_def case_prod_unfold)
  qed
qed

lemma forget_scan_toRemove:
  assumes "distinct (map snd es)" and "\<forall>a \<in> snd ` set es. a < length h"
  shows "snd (forget_scan rate now es h) = map fst (filter (\<lambda>e. evicted rate now (h ! snd e)) es)"
  using assms
proof (induction es arbitrary: h)
  case Nil
  then show ?case by simp
next
  case (Cons e es)
  obtain i a where e: "e = (i, a)" by (cases e)
  from Cons.prems e have a_len: "a < length h" and a_nin: "a \<notin> snd ` set es"
    and d: "distinct (map snd es)" and len: "\<forall>x \<in> snd ` set es. x < length h"
    by auto
  have same: "filter (\<lambda>e. evicted rate now (h[a := m] ! snd e)) es
            = filter (\<lambda>e. evicted rate now (h ! snd e)) es" for m
  proof (rule filter_cong[OF refl])
    fix x assume "x \<in> set es"
    then have "snd x \<noteq> a" using a_nin by auto
    then show "evicted rate now (h[a := m] ! snd x) = evicted rate now (h ! snd x)" by simp
  qed
  have IH1: "snd (forget_scan rate now es h) = map fst (filter (\<lambda>e. evicted rate now (h ! snd e)) es)"
    using Cons.IH[OF d len] .
  have IH2: "snd (forget_scan rate now es (h[a := m]))
               = map fst (filter (\<lambda>e. evicted rate now (h ! snd e)) es)" for m
    using Cons.IH[of "h[a := m]", OF d] len same by simp
  show ?case using e a_len IH1 IH2
    by (auto simp add: Let_def evicted_def case_prod_unfold)
qed

lemma remove_forgotten_fields [simp]:
  "heap (remove_forgotten c ids s) = heap s"
  "config (remove_forgotten c ids s) = config s"
  "associations (remove_forgotten c ids s) = filter (\<lambda>e. fst e \<notin> set ids) (associations s)"
  "memories (remove_forgotten c ids s) =
     (memories s)(c := filter (\<lambda>e. fst e \<notin> set ids) (memories s c))"
  by (induction ids arbitrary: s; simp add: map_delete_def fun_eq_iff conj_commute cong: filter_cong)+

lemma forget_category_fields:
  assumes "distinct (map snd (memories s c))" and "\<forall>a \<in> snd ` set (memories s c). a < length (heap s)"
  shows "length (heap (forget_category now c s)) = length (heap s)"
    and "config (forget_category now c s) = config s"
    and "b \<in> snd ` set (memories s c) \<Longrightarrow>
           heap (forget_category now c s) ! b = forget_one (forgettingRate (config s)) now (heap s ! b)"
    and "b \<notin> snd ` set (memories s c) \<Longrightarrow> heap (forget_category now c s) ! b = heap s ! b"
    and "associations (forget_category now c s)
           = filter (\<lambda>e. fst e \<notin> set (to_remove now s c)) (associations s)"
    and "memories (forget_category now c s)
           = (memories s)(c := filter (\<lambda>e. fst e \<notin> set (to_remove now s c)) (memories s c))"
  using assms
  by (simp_all add: forget_category_def case_prod_unfold forget_scan_nth forget_scan_other
      forget_scan_toRemove to_remove_def)

lemma pass_fold:
  assumes "distinct cs"
    and "distinct (concat (map (\<lambda>c. map snd (memories s c)) cs))"
    and "\<forall>c \<in> set cs. \<forall>a \<in> snd ` set (memories s c). a < length (heap s)"
  shows "length (heap (fold (forget_category now) cs s)) = length (heap s)
    \<and> config (fold (forget_category now) cs s) = config s
    \<and> (\<forall>c \<in> set cs. \<forall>b \<in> snd ` set (memories s c).
          heap (fold (forget_category now) cs s) ! b
            = forget_one (forgettingRate (config s)) now (heap s ! b))
    \<and> (\<forall>b. (\<forall>c \<in> set cs. b \<notin> snd ` set (memories s c)) \<longrightarrow>
          heap (fold (forget_category now) cs s) ! b = heap s ! b)
    \<and> associations (fold (forget_category now) cs s)
          = filter (\<lambda>e. \<forall>c \<in> set cs. fst e \<notin> set (to_remove now s c)) (associations s)
    \<and> (\<forall>c. memories (fold (forget_category now) cs s) c
          = (if c \<in> set cs then filter (\<lambda>e. fst e \<notin> set (to_remove now s c)) (memories s c)
             else memories s c))"
  using assms
proof (induction cs arbitrary: s)
  case Nil
  then show ?case by simp
next
  case (Cons c cs)
  let ?s1 = "forget_category now c s"
  let ?rate = "forgettingRate (config s)"
  from Cons.prems have dc: "distinct (map snd (memories s c))"
    and lc: "\<forall>a \<in> snd ` set (memories s c). a < length (heap s)"
    and cnin: "c \<notin> set cs" and dcs: "distinct cs"
    and drest: "distinct (concat (map (\<lambda>c. map snd (memories s c)) cs))"
    and big: "snd ` set (memories s c) \<inter> (\<Union>x\<in>set cs. snd ` set (memories s x)) = {}"
    and lrest: "\<forall>c' \<in> set cs. \<forall>a \<in> snd ` set (memories s c'). a < length (heap s)"
    by simp_all
  from big have disj: "\<forall>c' \<in> set cs. snd ` set (memories s c) \<inter> snd ` set (memories s c') = {}"
    by blast
  note fc = forget_category_fields[OF dc lc, where now = now]
  have mem1: "memories ?s1 c' = memories s c'" if "c' \<in> set cs" for c'
    using that cnin by (auto simp add: fc(6))
  have heap1: "heap ?s1 ! b = heap s ! b" if "c' \<in> set cs" "b \<in> snd ` set (memories s c')" for b c'
    using that disj by (intro fc(4)) blast
  have tr1: "to_remove now ?s1 c' = to_remove now s c'" if "c' \<in> set cs" for c'
  proof -
    have "filter (\<lambda>e. evicted ?rate now (heap ?s1 ! snd e)) (memories s c')
        = filter (\<lambda>e. evicted ?rate now (heap s ! snd e)) (memories s c')"
      by (rule filter_cong[OF refl]) (simp add: heap1[OF that])
    then show ?thesis using that by (simp add: to_remove_def fc(2) mem1)
  qed
  have d1: "distinct (concat (map (\<lambda>c. map snd (memories ?s1 c)) cs))"
    using drest mem1 by (simp cong: map_cong)
  have l1: "\<forall>c' \<in> set cs. \<forall>a \<in> snd ` set (memories ?s1 c'). a < length (heap ?s1)"
    using lrest mem1 fc(1) by simp
  note IH = Cons.IH[OF dcs d1 l1]
  let ?s' = "fold (forget_category now) cs ?s1"
  have f: "fold (forget_category now) (c # cs) s = ?s'" by simp
  have g1: "length (heap ?s') = length (heap s)" using IH fc(1) by simp
  have g2: "config ?s' = config s" using IH fc(2) by simp
  have g3: "heap ?s' ! b = forget_one ?rate now (heap s ! b)"
    if "c' \<in> set (c # cs)" "b \<in> snd ` set (memories s c')" for c' b
  proof (cases "c' = c")
    case True
    have "\<forall>c'' \<in> set cs. b \<notin> snd ` set (memories ?s1 c'')"
      using that True disj mem1 by auto
    then have "heap ?s' ! b = heap ?s1 ! b" using IH by blast
    then show ?thesis using that True fc(3) by simp
  next
    case False
    then have in_cs: "c' \<in> set cs" using that by simp
    have "b \<in> snd ` set (memories ?s1 c')" using that(2) mem1[OF in_cs] by simp
    with in_cs IH have "heap ?s' ! b = forget_one (forgettingRate (config ?s1)) now (heap ?s1 ! b)"
      by blast
    then show ?thesis using heap1[OF in_cs that(2)] fc(2) by simp
  qed
  have g4: "heap ?s' ! b = heap s ! b"
    if "\<forall>c' \<in> set (c # cs). b \<notin> snd ` set (memories s c')" for b
  proof -
    have "\<forall>c'' \<in> set cs. b \<notin> snd ` set (memories ?s1 c'')" using that mem1 by auto
    then have "heap ?s' ! b = heap ?s1 ! b" using IH by blast
    then show ?thesis using that fc(4) by simp
  qed
  have g5: "associations ?s'
          = filter (\<lambda>e. \<forall>c' \<in> set (c # cs). fst e \<notin> set (to_remove now s c')) (associations s)"
  proof -
    have "associations ?s' = filter (\<lambda>e. \<forall>c' \<in> set cs. fst e \<notin> set (to_remove now ?s1 c'))
                               (associations ?s1)"
      using IH by blast
    also have "\<dots> = filter (\<lambda>e. \<forall>c' \<in> set cs. fst e \<notin> set (to_remove now s c'))
                               (associations ?s1)"
      by (rule filter_cong[OF refl]) (simp add: tr1)
    finally show ?thesis by (simp add: fc(5) conj_commute)
  qed
  have g6: "memories ?s' c'
          = (if c' \<in> set (c # cs) then filter (\<lambda>e. fst e \<notin> set (to_remove now s c')) (memories s c')
             else memories s c')" for c'
  proof -
    have "memories ?s' c'
          = (if c' \<in> set cs then filter (\<lambda>e. fst e \<notin> set (to_remove now ?s1 c')) (memories ?s1 c')
             else memories ?s1 c')"
      using IH by blast
    then show ?thesis using cnin by (auto simp add: tr1 mem1 fc(6))
  qed
  show ?case unfolding f using g1 g2 g3 g4 g5 g6 by blast
qed

lemma distinct_categories [simp]: "distinct categories"
  by (simp add: categories_def)

lemma category_listed [simp]: "c \<in> set categories"
  by (cases c) (simp_all add: categories_def)

lemma pass_effect:
  assumes "well_formed s"
  shows "length (heap (processForgetting now s)) = length (heap s)"
    and "(i, a) \<in> set (memories s c) \<Longrightarrow>
           heap (processForgetting now s) ! a = forget_one (forgettingRate (config s)) now (heap s ! a)"
    and "associations (processForgetting now s)
           = filter (\<lambda>e. fst e \<notin> set (forgotten_ids now s)) (associations s)"
    and "memories (processForgetting now s) c
           = filter (\<lambda>e. fst e \<notin> set (to_remove now s c)) (memories s c)"
proof -
  from assms have d: "distinct (concat (map (\<lambda>c. map snd (memories s c)) categories))"
    and l: "\<forall>c \<in> set categories. \<forall>a \<in> snd ` set (memories s c). a < length (heap s)"
    by (auto simp add: well_formed_def all_entries_def list_all_iff)
  note pf = pass_fold[OF distinct_categories d l, of now, folded processForgetting_def]
  show "length (heap (processForgetting now s)) = length (heap s)" using pf by blast
  show "heap (processForgetting now s) ! a = forget_one (forgettingRate (config s)) now (heap s ! a)"
    if "(i, a) \<in> set (memories s c)"
  proof -
    have "a \<in> snd ` set (memories s c)" using that by force
    then show ?thesis using pf category_listed[of c] by blast
  qed
  have "associations (processForgetting now s)
          = filter (\<lambda>e. \<forall>c \<in> set categories. fst e \<notin> set (to_remove now s c)) (associations s)"
    using pf by blast
  then show "associations (processForgetting now s)
           = filter (\<lambda>e. fst e \<notin> set (forgotten_ids now s)) (associations s)"
    by (simp add: forgotten_ids_def)
  show "memories (processForgetting now s) c
           = filter (\<lambda>e. fst e \<notin> set (to_remove now s c)) (memories s c)"
    using pf category_listed[of c] by simp
qed


lemma decay_le:
  assumes "0 \<le> (x::real)" and "t \<le> now" and "0 \<le> rate" and "b \<le> 0"
  shows "x * exp (- rate * (now - t) / (24 * 60 * 60 * 1000)) + b \<le> x"
proof -
  have "- rate * (now - t) / (24 * 60 * 60 * 1000) \<le> 0"
    using assms by (simp add: divide_nonpos_pos mult_nonneg_nonneg)
  then have "exp (- rate * (now - t) / (24 * 60 * 60 * 1000)) \<le> 1" by simp
  then have "x * exp (- rate * (now - t) / (24 * 60 * 60 * 1000)) \<le> x * 1"
    using assms(1) by (intro mult_left_mono) auto
  then show ?thesis using assms(4) by simp
qed


text \<open>
  The forgetting theorems below are about banks in which every stored reference denotes
  an object and no object is stored twice. The constructor's bank is such a bank, and
  \<open>store\<close> of an object that is not yet stored keeps the property.
\<close>

lemma snd_map_set: "snd ` set (map_set k a xs) \<subseteq> insert a (snd ` set xs)"
proof (induction xs)
  case Nil
  then show ?case by simp
next
  case (Cons x xs)
  obtain k' v' where x: "x = (k', v')" by (cases x)
  show ?case
  proof (cases "k = k'")
    case True
    then show ?thesis using x by auto
  next
    case False
    then show ?thesis using x Cons by auto
  qed
qed

lemma distinct_map_set:
  "distinct (map snd xs) \<Longrightarrow> a \<notin> snd ` set xs \<Longrightarrow> distinct (map snd (map_set k a xs))"
proof (induction xs)
  case Nil
  then show ?case by simp
next
  case (Cons x xs)
  obtain k' v' where x: "x = (k', v')" by (cases x)
  have "v' \<notin> snd ` set (map_set k a xs)"
    using Cons.prems snd_map_set[of k a xs] x by auto
  then show ?case using Cons x by auto
qed

lemma replace_part:
  assumes "distinct (E @ S @ P @ M)" and "distinct X" and "a \<notin> set (E @ S @ P @ M)"
  shows "set X \<subseteq> insert a (set E) \<Longrightarrow> distinct (X @ S @ P @ M)"
    and "set X \<subseteq> insert a (set S) \<Longrightarrow> distinct (E @ X @ P @ M)"
    and "set X \<subseteq> insert a (set P) \<Longrightarrow> distinct (E @ S @ X @ M)"
    and "set X \<subseteq> insert a (set M) \<Longrightarrow> distinct (E @ S @ P @ X)"
  using assms by (auto simp add: subset_iff)

lemma well_formed_new_bank: "well_formed ((new_bank owner)\<lparr>heap := h\<rparr>)"
  by (simp add: well_formed_def all_entries_def categories_def new_bank_def)

lemma well_formed_store:
  assumes "well_formed s" and "a < length (heap s)" and "a \<notin> set (all_entries s)"
    and "store env now rnd a s = Inr (i, s')"
  shows "well_formed s'"
proof -
  from assms(4) assms(2) obtain c where
    c: "parse_category (categorizeMemory (heap s ! a)) = Some c"
    by (auto simp add: store_def Let_def split: option.splits)
  let ?k = "m_id (store_fields env (ownerId s) (config s) now rnd (heap s ! a))"
  let ?X = "map snd (map_set ?k a (memories s c))"
  from store_effect[OF assms(2) c, of env now rnd] assms(4) have
    h: "length (heap s') = length (heap s)"
    and m: "memories s' = (memories s)(c := map_set ?k a (memories s c))"
    by auto
  let ?E = "map snd (memories s Episodic)" and ?S = "map snd (memories s Semantic)"
  let ?P = "map snd (memories s Procedural)" and ?M = "map snd (memories s Emotional)"
  have ae: "all_entries s = ?E @ ?S @ ?P @ ?M"
    by (simp add: all_entries_def categories_def)
  have "distinct (?E @ ?S @ ?P @ ?M)
      \<and> (\<forall>x \<in> set (?E @ ?S @ ?P @ ?M). x < length (heap s))"
    using assms(1) unfolding well_formed_def ae list_all_iff by blast
  then have d: "distinct (?E @ ?S @ ?P @ ?M)"
    and l: "\<forall>x \<in> set (?E @ ?S @ ?P @ ?M). x < length (heap s)"
    by blast+
  have n: "a \<notin> set (?E @ ?S @ ?P @ ?M)" using assms(3) unfolding ae by assumption
  have inc: "set (map snd (memories s c)) \<subseteq> set (?E @ ?S @ ?P @ ?M)"
    by (cases c) auto
  have sub: "set ?X \<subseteq> insert a (set (map snd (memories s c)))"
    using snd_map_set[of ?k a "memories s c"] by simp
  have dc: "distinct (map snd (memories s c))"
    using d by (cases c) simp_all
  have "a \<notin> set (map snd (memories s c))" using n inc by blast
  then have nc: "a \<notin> snd ` set (memories s c)" by simp
  have dX: "distinct ?X" using dc nc by (rule distinct_map_set)
  have lX: "\<forall>x \<in> set ?X. x < length (heap s')"
    using sub inc l assms(2) h by (simp only: h) blast
  have l': "\<forall>x \<in> set (?E @ ?S @ ?P @ ?M). x < length (heap s')"
    using l by (simp only: h)
  have fin: "well_formed s'"
    if "all_entries s' = L" "distinct L" "set L \<subseteq> set ?X \<union> set (?E @ ?S @ ?P @ ?M)" for L
  proof -
    have "\<forall>x \<in> set L. x < length (heap s')" using that(3) lX l' by blast
    then show ?thesis using that(1,2) by (simp add: well_formed_def list_all_iff)
  qed
  show ?thesis
  proof (cases c)
    case Episodic
    have "all_entries s' = ?X @ ?S @ ?P @ ?M"
      using Episodic by (simp add: all_entries_def categories_def m)
    moreover have "distinct (?X @ ?S @ ?P @ ?M)"
      using replace_part(1)[OF d dX n] sub Episodic by simp
    moreover have "set (?X @ ?S @ ?P @ ?M) \<subseteq> set ?X \<union> set (?E @ ?S @ ?P @ ?M)"
      by auto
    ultimately show ?thesis by (rule fin)
  next
    case Semantic
    have "all_entries s' = ?E @ ?X @ ?P @ ?M"
      using Semantic by (simp add: all_entries_def categories_def m)
    moreover have "distinct (?E @ ?X @ ?P @ ?M)"
      using replace_part(2)[OF d dX n] sub Semantic by simp
    moreover have "set (?E @ ?X @ ?P @ ?M) \<subseteq> set ?X \<union> set (?E @ ?S @ ?P @ ?M)"
      by auto
    ultimately show ?thesis by (rule fin)
  next
    case Procedural
    have "all_entries s' = ?E @ ?S @ ?X @ ?M"
      using Procedural by (simp add: all_entries_def categories_def m)
    moreover have "distinct (?E @ ?S @ ?X @ ?M)"
      using replace_part(3)[OF d dX n] sub Procedural by simp
    moreover have "set (?E @ ?S @ ?X @ ?M) \<subseteq> set ?X \<union> set (?E @ ?S @ ?P @ ?M)"
      by auto
    ultimately show ?thesis by (rule fin)
  next
    case Emotional
    have "all_entries s' = ?E @ ?S @ ?P @ ?X"
      using Emotional by (simp add: all_entries_def categories_def m)
    moreover have "distinct (?E @ ?S @ ?P @ ?X)"
      using replace_part(4)[OF d dX n] sub Emotional by simp
    moreover have "set (?E @ ?S @ ?P @ ?X) \<subseteq> set ?X \<union> set (?E @ ?S @ ?P @ ?M)"
      by auto
    ultimately show ?thesis by (rule fin)
  qed
qed


lemma linked_bank_reached:
  "store plain_env 1000 0.25 1 visited_once = Inr (Some ''npc_t_a'', linked_bank)"
  by (simp add: store_defs example_defs faint_visit_def vivid_visit_def visited_once_def
      linked_bank_def Let_def calculateSimilarity_memory_def compareContexts_def)

lemmas forget_defs = processForgetting_def forget_category_def recently_accessed_def
  decayed_strength_def decayFactor_def retentionBonus_def categories_def map_delete_def

lemmas linked_defs = linked_bank_def example_defs faint_visit_def vivid_visit_def

lemma well_formed_linked_bank: "well_formed linked_bank"
  by (simp add: well_formed_def all_entries_def categories_def linked_defs)


lemma quiet_bank_reached:
  "store plain_env 1000 0.5 0 ((new_bank ''npc'')\<lparr>heap := [quiet_event]\<rparr>)
     = Inr (Some ''npc_t_r'', quiet_bank)"
  by (simp add: store_defs example_defs quiet_event_def quiet_bank_def Let_def)

lemma well_formed_quiet_bank: "well_formed quiet_bank"
  by (simp add: well_formed_def all_entries_def categories_def quiet_bank_def example_defs)


lemma exp_milli: "4 / 5 \<le> exp (- (1 / 1000) :: real)"
proof -
  have "1 + (- (1 / 1000)) \<le> exp (- (1 / 1000) :: real)" by (rule exp_ge_add_one_self)
  then show ?thesis by simp
qed

lemma exp_milli_less: "exp (- (1 / 1000) :: real) < 1"
  by simp


text \<open>
  Claim C3, as stated: a pass never raises the strength of a record that was not accessed
  in the last 60 seconds. In \<open>linked_bank\<close> (two \<open>store\<close> calls on a new bank) the
  second record has strength 0.5 and importance 1 and was never accessed; a pass at the
  time of its creation sets its strength to 0.5 * exp 0 + 0.3 = 0.8.
\<close>

theorem forgetting_raises_strength_counterexample:
  "store plain_env 1000 0.25 1 visited_once = Inr (Some ''npc_t_a'', linked_bank)
   \<and> map_of (memories linked_bank Episodic) (Some ''npc_t_a'') = Some 1
   \<and> \<not> recently_accessed 1000 (heap linked_bank ! 1)
   \<and> m_strength (heap linked_bank ! 1) = Num 0.5
   \<and> m_strength (heap (processForgetting 1000 linked_bank) ! 1) = Num 0.8
   \<and> \<not> jle (m_strength (heap (processForgetting 1000 linked_bank) ! 1))
            (m_strength (heap linked_bank ! 1))"
  using linked_bank_reached by (simp add: forget_defs linked_defs Let_def)


text \<open>
  Claim C3, amended: take a stored record that was not accessed within the last 60
  seconds (in a bank where each stored reference denotes its own object), with numbers
  for strength, timestamp, importance and access count, and let
  \<open>d = exp (- forgettingRate * age / 1 day)\<close> and \<open>b\<close> the retention bonus, that is
  \<open>importance * 0.3\<close>, plus 0.3 if the record is consolidated, plus 0.2 if its access
  count is above 5. Whenever \<open>strength * d + b\<close> lies in [0, 1], one pass sets the
  strength to that value, and it is at most the strength before the pass exactly when
  \<open>b \<le> strength * (1 - d)\<close>. In particular, for a record with importance 0 that
  is not consolidated and has at most 5 accesses, with strength in [0, 1] and age and
  forgetting rate not negative, the pass sets the strength to \<open>strength * d\<close>, which is
  at most the strength before. The strength can rise for other importance values,
  consolidation flags and access counts. Nothing is stated about a pass whose result
  would leave [0, 1].
\<close>

theorem forgetting_strength_change:
  assumes "well_formed s" and "(i, a) \<in> set (memories s c)"
    and "\<not> recently_accessed now (heap s ! a)"
    and "m_strength (heap s ! a) = Num x" and "m_timestamp (heap s ! a) = Num t"
    and "m_importance (heap s ! a) = Num imp" and "m_accessCount (heap s ! a) = Num n"
    and "d = exp (- forgettingRate (config s) * (now - t) / (24 * 60 * 60 * 1000))"
    and "b = imp * 0.3 + (if m_consolidated (heap s ! a) then 0.3 else 0)
                       + (if 5 < n then 0.2 else 0)"
  shows "(0 \<le> x * d + b \<and> x * d + b \<le> 1 \<longrightarrow>
            m_strength (heap (processForgetting now s) ! a) = Num (x * d + b)
          \<and> (jle (m_strength (heap (processForgetting now s) ! a)) (m_strength (heap s ! a))
               \<longleftrightarrow> b \<le> x * (1 - d)))
       \<and> (imp = 0 \<and> \<not> m_consolidated (heap s ! a) \<and> n \<le> 5 \<and> 0 \<le> x \<and> x \<le> 1 \<and> t \<le> now
            \<and> 0 \<le> forgettingRate (config s) \<longrightarrow>
            m_strength (heap (processForgetting now s) ! a) = Num (x * d)
          \<and> jle (m_strength (heap (processForgetting now s) ! a)) (m_strength (heap s ! a)))"
proof -
  have st: "m_strength (heap (processForgetting now s) ! a)
           = decayed_strength (forgettingRate (config s)) now (heap s ! a)"
    using pass_effect(2)[OF assms(1,2)] assms(3) by (simp add: forget_one_def)
  have bonus: "retentionBonus (heap s ! a) = Num b"
    using assms(6,7,9) by (simp add: retentionBonus_def)
  have num: "decayed_strength (forgettingRate (config s)) now (heap s ! a) = Num (x * d + b)"
    using assms(4,5,8) bonus by (simp add: decayed_strength_def decayFactor_def)
  have after: "m_strength (heap (processForgetting now s) ! a) = Num (x * d + b)"
    using st num by simp
  have iff: "(x * d + b \<le> x) \<longleftrightarrow> b \<le> x * (1 - d)"
    by (simp add: algebra_simps)
  have le: "jle (m_strength (heap (processForgetting now s) ! a)) (m_strength (heap s ! a))
              \<longleftrightarrow> b \<le> x * (1 - d)"
    using after assms(4) iff by simp
  have zero: "x * d + b \<le> x \<and> b = 0"
    if "imp = 0" "\<not> m_consolidated (heap s ! a)" "n \<le> 5" "0 \<le> x" "t \<le> now"
       "0 \<le> forgettingRate (config s)"
  proof -
    have b0: "b = 0" using that(1,2,3) assms(9) by simp
    from decay_le[OF that(4,5,6), of 0] have "x * d + 0 \<le> x" using assms(8) by simp
    then show ?thesis using b0 by simp
  qed
  show ?thesis using after le zero iff by auto
qed

theorem forgetting_strength_change_witness:
  "store plain_env 1000 0.5 0 ((new_bank ''npc'')\<lparr>heap := [quiet_event]\<rparr>)
     = Inr (Some ''npc_t_r'', quiet_bank)
   \<and> m_strength (heap quiet_bank ! 0) = Num 0.5
   \<and> m_strength (heap (processForgetting 86401000 quiet_bank) ! 0)
       = Num (0.5 * exp (- (1 / 1000)))
   \<and> jle (m_strength (heap (processForgetting 86401000 quiet_bank) ! 0))
          (m_strength (heap quiet_bank ! 0))
   \<and> m_strength (heap (processForgetting 86401000 quiet_bank) ! 0)
       \<noteq> m_strength (heap quiet_bank ! 0)
   \<and> \<not> evicted (forgettingRate (config quiet_bank)) 86401000 (heap quiet_bank ! 0)
   \<and> memories (processForgetting 86401000 quiet_bank) Episodic = [(Some ''npc_t_r'', 0)]
   \<and> m_strength (heap linked_bank ! 1) = Num 0.5
   \<and> m_strength (heap (processForgetting 86401000 linked_bank) ! 1)
       = Num (0.5 * exp (- (1 / 1000)) + 0.3)"
proof -
  note quiet_defs = quiet_bank_def quiet_event_def example_defs
  have m: "(Some ''npc_t_r'', 0) \<in> set (memories quiet_bank Episodic)"
    by (simp add: quiet_defs)
  have r: "\<not> recently_accessed 86401000 (heap quiet_bank ! 0)"
    by (simp add: recently_accessed_def quiet_defs)
  have x: "m_strength (heap quiet_bank ! 0) = Num 0.5"
    and t: "m_timestamp (heap quiet_bank ! 0) = Num 1000"
    and imp: "m_importance (heap quiet_bank ! 0) = Num 0"
    and n: "m_accessCount (heap quiet_bank ! 0) = Num 0"
    and c: "\<not> m_consolidated (heap quiet_bank ! 0)"
    by (simp_all add: quiet_defs)
  have d: "exp (- (1 / 1000)) = exp (- forgettingRate (config quiet_bank) * (86401000 - 1000)
                                      / (24 * 60 * 60 * 1000))"
    by (simp add: quiet_defs)
  have b: "(0::real) = 0 * 0.3 + (if m_consolidated (heap quiet_bank ! 0) then 0.3 else 0)
                       + (if 5 < (0::real) then 0.2 else 0)"
    using c by simp
  have rate: "0 \<le> forgettingRate (config quiet_bank)"
    by (simp add: quiet_defs)
  have pre: "(0::real) = 0 \<and> \<not> m_consolidated (heap quiet_bank ! 0) \<and> (0::real) \<le> 5
             \<and> (0::real) \<le> 0.5 \<and> (0.5::real) \<le> 1 \<and> (1000::real) \<le> 86401000
             \<and> 0 \<le> forgettingRate (config quiet_bank)"
    using c rate by simp
  from forgetting_strength_change[OF well_formed_quiet_bank m r x t imp n d b] pre
  have both: "m_strength (heap (processForgetting 86401000 quiet_bank) ! 0)
                 = Num (0.5 * exp (- (1 / 1000)))
             \<and> jle (m_strength (heap (processForgetting 86401000 quiet_bank) ! 0))
                 (m_strength (heap quiet_bank ! 0))"
    by blast
  then have after: "m_strength (heap (processForgetting 86401000 quiet_bank) ! 0)
                 = Num (0.5 * exp (- (1 / 1000)))"
    and le: "jle (m_strength (heap (processForgetting 86401000 quiet_bank) ! 0))
                 (m_strength (heap quiet_bank ! 0))"
    by blast+
  have ne: "m_strength (heap (processForgetting 86401000 quiet_bank) ! 0)
              \<noteq> m_strength (heap quiet_bank ! 0)"
    using after x exp_milli_less by simp
  have ds: "decayed_strength (forgettingRate (config quiet_bank)) 86401000 (heap quiet_bank ! 0)
              = Num (0.5 * exp (- (1 / 1000)))"
    using x t imp n c
    by (simp add: decayed_strength_def decayFactor_def retentionBonus_def)
       (simp add: quiet_defs)
  have ev: "\<not> evicted (forgettingRate (config quiet_bank)) 86401000 (heap quiet_bank ! 0)"
    using exp_milli by (simp add: evicted_def ds)
  have mq: "memories quiet_bank Episodic = [(Some ''npc_t_r'', 0)]"
    by (simp add: quiet_defs)
  have tr: "to_remove 86401000 quiet_bank Episodic = []"
    using ev by (simp add: to_remove_def mq)
  have mem: "memories (processForgetting 86401000 quiet_bank) Episodic = [(Some ''npc_t_r'', 0)]"
    using pass_effect(4)[OF well_formed_quiet_bank, of 86401000 Episodic] tr mq by simp
  have m1: "(Some ''npc_t_a'', 1) \<in> set (memories linked_bank Episodic)"
    by (simp add: linked_defs)
  have r1: "\<not> recently_accessed 86401000 (heap linked_bank ! 1)"
    by (simp add: recently_accessed_def linked_defs)
  have x1: "m_strength (heap linked_bank ! 1) = Num 0.5"
    and t1: "m_timestamp (heap linked_bank ! 1) = Num 1000"
    and imp1: "m_importance (heap linked_bank ! 1) = Num 1"
    and n1: "m_accessCount (heap linked_bank ! 1) = Num 0"
    and c1: "\<not> m_consolidated (heap linked_bank ! 1)"
    by (simp_all add: linked_defs)
  have d1: "exp (- (1 / 1000)) = exp (- forgettingRate (config linked_bank) * (86401000 - 1000)
                                      / (24 * 60 * 60 * 1000))"
    by (simp add: linked_defs)
  have b1: "(0.3::real) = 1 * 0.3 + (if m_consolidated (heap linked_bank ! 1) then 0.3 else 0)
                       + (if 5 < (0::real) then 0.2 else 0)"
    using c1 by simp
  have g1: "0 \<le> 0.5 * exp (- (1 / 1000)) + (0.3::real)
            \<and> 0.5 * exp (- (1 / 1000)) + (0.3::real) \<le> 1"
  proof -
    have e1: "exp (- (1 / 1000) :: real) \<le> 1" by simp
    have e0: "0 \<le> exp (- (1 / 1000) :: real)" by simp
    show ?thesis using e0 e1 by (intro conjI; linarith)
  qed
  from forgetting_strength_change[OF well_formed_linked_bank m1 r1 x1 t1 imp1 n1 d1 b1] g1
  have after1: "m_strength (heap (processForgetting 86401000 linked_bank) ! 1)
                  = Num (0.5 * exp (- (1 / 1000)) + 0.3)"
    by blast
  show ?thesis using quiet_bank_reached x after le ne ev mem x1 after1 by blast
qed







section \<open>Emergence: the pattern registry\<close>


























section \<open>Emergence: the suppression of \<open>flee\<close>\<close>

lemma generate_not_flee:
  assumes "generateEmergentBehavior cfg now rnd k pat ctx = (Inr (Some b), k')"
    and "\<not> truthy (e_threat ctx)"
  shows "action b \<noteq> ''flee''"
proof -
  obtain r k1 where sel: "selectOutcome cfg rnd (k + 1) (p_outcomes pat) ctx = (r, k1)"
    by (cases "selectOutcome cfg rnd (k + 1) (p_outcomes pat) ctx")
  show ?thesis
  proof (cases r)
    case (Inl e)
    then show ?thesis using assms(1) sel by (simp add: generateEmergentBehavior_def Let_def)
  next
    case (Inr outcome)
    have "outcome \<noteq> ''flee''"
    proof
      assume "outcome = ''flee''"
      then have "fst (generateEmergentBehavior cfg now rnd k pat ctx) = Inr None"
        using sel Inr assms(2)
        by (simp add: generateEmergentBehavior_def Let_def shouldSuppress_def case_prod_unfold)
      then show False using assms(1) by simp
    qed
    moreover have "action b = outcome"
      using assms(1) sel Inr
      by (auto simp add: generateEmergentBehavior_def Let_def case_prod_unfold split: if_splits)
    ultimately show ?thesis by simp
  qed
qed

lemma generate_suppressed:
  assumes "selectOutcome cfg rnd (k + 1) (p_outcomes pat) ctx = (Inr ''flee'', k1)"
    and "\<not> truthy (e_threat ctx)"
  shows "fst (generateEmergentBehavior cfg now rnd k pat ctx) = Inr None"
  using assms
  by (simp add: generateEmergentBehavior_def Let_def shouldSuppress_def case_prod_unfold)

lemma generate_all_not_flee:
  assumes "generate_all cfg now rnd k pats ctx = Inr bs" and "\<not> truthy (e_threat ctx)"
  shows "\<forall>b \<in> set bs. action b \<noteq> ''flee''"
  using assms
proof (induction pats arbitrary: k bs)
  case Nil
  then show ?case by simp
next
  case (Cons pat pats)
  show ?case
  proof (cases "p_strength pat > emergenceThreshold cfg")
    case False
    then show ?thesis using Cons by simp
  next
    case True
    obtain r k1 where g: "generateEmergentBehavior cfg now rnd k pat ctx = (r, k1)"
      by (cases "generateEmergentBehavior cfg now rnd k pat ctx")
    show ?thesis
    proof (cases r)
      case (Inl e)
      then show ?thesis using Cons.prems True g by simp
    next
      case (Inr ob)
      show ?thesis
      proof (cases ob)
        case None
        then show ?thesis using Cons True g Inr by simp
      next
        case (Some b)
        then obtain bs' where bs': "generate_all cfg now rnd k1 pats ctx = Inr bs'" "bs = b # bs'"
          using Cons.prems(1) True g Inr by (auto split: sum.splits)
        have "action b \<noteq> ''flee''"
          using generate_not_flee[of cfg now rnd k pat ctx b k1] g Inr Some Cons.prems(2) by simp
        then show ?thesis using Cons.IH[OF bs'(1) Cons.prems(2)] bs'(2) by simp
      qed
    qed
  qed
qed

lemma combination_not_flee:
  assumes "analyzeBehaviorCombination now b1 b2 = Some c"
  shows "action c \<noteq> ''flee''"
proof -
  from assms obtain act descr where
    m: "map_of combinations (action b1 @ ''+'' @ action b2) = Some (act, descr)"
    and c: "action c = act"
    by (auto simp add: analyzeBehaviorCombination_def Let_def meta_behavior_def
        split: option.splits)
  from m have "(act, descr) \<in> snd ` set combinations"
    by (metis image_eqI map_of_SomeD snd_conv)
  then have "act \<noteq> ''flee''" by (auto simp add: combinations_def)
  then show ?thesis using c by simp
qed

lemma sequence_not_flee:
  assumes "analyzeSequence now bs = Some c"
  shows "action c \<noteq> ''flee''"
  using assms by (auto simp add: analyzeSequence_def meta_behavior_def split: if_splits)

lemma meta_not_flee:
  assumes "b \<in> set (checkMetaEmergence now bs)"
  shows "action b \<noteq> ''flee''"
proof (cases "length bs \<ge> 2")
  case False
  then show ?thesis using assms by (simp add: checkMetaEmergence_def)
next
  case True
  let ?combos = "concat (map (\<lambda>(b1, b2). case analyzeBehaviorCombination now b1 b2 of
                                       None \<Rightarrow> [] | Some combo \<Rightarrow> [combo])
                       (pairs_of bs))"
  let ?seq = "if length bs \<ge> 3
              then (case analyzeSequence now bs of None \<Rightarrow> [] | Some sq \<Rightarrow> [sq])
              else []"
  have "checkMetaEmergence now bs = ?combos @ ?seq"
    using True unfolding checkMetaEmergence_def by (simp only: if_True)
  with assms have "b \<in> set ?combos \<or> b \<in> set ?seq"
    by (simp only: set_append Un_iff)
  then show ?thesis
  proof
    assume "b \<in> set ?combos"
    then obtain b1 b2 where
      "b \<in> set (case analyzeBehaviorCombination now b1 b2 of None \<Rightarrow> [] | Some combo \<Rightarrow> [combo])"
      by auto
    then have "analyzeBehaviorCombination now b1 b2 = Some b"
      by (cases "analyzeBehaviorCombination now b1 b2") simp_all
    then show ?thesis by (rule combination_not_flee)
  next
    assume a: "b \<in> set ?seq"
    show ?thesis
    proof (cases "3 \<le> length bs")
      case False
      with a have "b \<in> set []" by (simp only: if_False)
      then show ?thesis by simp
    next
      case True
      with a have m: "b \<in> set (case analyzeSequence now bs of None \<Rightarrow> [] | Some sq \<Rightarrow> [sq])"
        by (simp only: if_True)
      show ?thesis
      proof (cases "analyzeSequence now bs")
        case None
        with m have "b \<in> set []" by (simp only: option.case)
        then show ?thesis by simp
      next
        case (Some c)
        with m have "b \<in> set [c]" by (simp only: option.case)
        then have "c = b" by simp
        with Some have "analyzeSequence now bs = Some b" by simp
        then show ?thesis by (rule sequence_not_flee)
      qed
    qed
  qed
qed

lemma threat_buildContext [simp]: "e_threat (buildContext now rnd state pers) = assessThreat state"
  by (simp add: buildContext_def Let_def)

lemma checkEmergence_not_flee:
  assumes "fst (checkEmergence now rnd state pers eng) = Inr bs"
    and "assessThreat state = Num 0"
  shows "\<forall>b \<in> set bs. action b \<noteq> ''flee''"
proof -
  let ?ctx = "buildContext now rnd state pers"
  let ?cfg = "eng_config eng"
  let ?pats = "fst (detectPatterns ?cfg now (evaluateRules defineBehaviorRules ?ctx) (emergentPatterns eng))"
  have nt: "\<not> truthy (e_threat ?ctx)" using assms(2) by simp
  from assms(1) obtain bs0 where g: "generate_all ?cfg now rnd 4 ?pats ?ctx = Inr bs0"
    and bs: "bs = bs0 @ checkMetaEmergence now bs0"
    by (auto simp add: checkEmergence_def Let_def case_prod_unfold split: sum.splits)
  show ?thesis using generate_all_not_flee[OF g nt] meta_not_flee[of _ now bs0] bs by auto
qed

lemma run_calls_length [simp]: "length (fst (run_calls calls eng)) = length calls"
  by (induction calls arbitrary: eng) (simp_all add: case_prod_unfold Let_def)

lemma run_calls_not_flee:
  assumes "i < length calls" and "assessThreat (call_state (calls ! i)) = Num 0"
    and "fst (run_calls calls eng) ! i = Inr bs"
  shows "\<forall>b \<in> set bs. action b \<noteq> ''flee''"
  using assms
proof (induction calls arbitrary: eng i)
  case Nil
  then show ?case by simp
next
  case (Cons c cs)
  show ?case
  proof (cases i)
    case 0
    then have "fst (checkEmergence (call_now c) (call_rnd c) (call_state c) (call_personality c) eng) = Inr bs"
      using Cons.prems(3) by (simp add: case_prod_unfold Let_def)
    then show ?thesis using checkEmergence_not_flee Cons.prems(2) 0 by simp
  next
    case (Suc j)
    then show ?thesis using Cons.prems Cons.IH[of j]
      by (simp add: case_prod_unfold Let_def)
  qed
qed

lemmas emergence_defs = evaluateRules_def defineBehaviorRules_def buildContext_def
  analyzeNeeds_def assessThreat_def findEmotionalExtreme_def
  current_mood_def analyzeSocialContext_def checkRecentKindness_def countConflictingGoals_def
  trait_def jor_def checkEmergence_def detectPatterns_def analyzeRuleInteraction_def synergies_def
  detectComplexPatterns_def findRuleChains_def findNextInChain_def rulesConnected_def connections_def
  note_pattern_def getPatternKey_def sort_rules_def novel_variant_def habit_variant_def
  generateEmergentBehavior_def selectOutcome_def getOutcomeWeight_def or_default_def pick_def
  generateBehaviorParameters_def shouldSuppress_def checkMetaEmergence_def
  updateEmergenceHistory_def default_emergence_config_def


text \<open>
  Claim C2: in any sequence of calls of \<open>checkEmergence\<close> on one engine, whatever the
  states, personalities, clock readings and random draws, a call whose context has threat
  0 and that returns a list returns no behavior with action \<open>flee\<close>. When the outcome
  selected for a pattern is \<open>flee\<close> and the threat is 0, generation returns \<open>null\<close>
  (not an error). Every call has a result.
\<close>

theorem flee_never_emitted_without_threat:
  "(i < length calls
      \<and> e_threat (buildContext (call_now (calls ! i)) (call_rnd (calls ! i))
                     (call_state (calls ! i)) (call_personality (calls ! i))) = Num 0
      \<and> fst (run_calls calls eng) ! i = Inr bs \<and> b \<in> set bs
    \<longrightarrow> action b \<noteq> ''flee'')
   \<and> (selectOutcome cfg rnd (k + 1) (p_outcomes pat) ctx = (Inr ''flee'', k1)
        \<and> e_threat ctx = Num 0
    \<longrightarrow> fst (generateEmergentBehavior cfg now rnd k pat ctx) = Inr None)
   \<and> length (fst (run_calls calls eng)) = length calls"
proof (intro conjI impI)
  assume a: "i < length calls
      \<and> e_threat (buildContext (call_now (calls ! i)) (call_rnd (calls ! i))
                     (call_state (calls ! i)) (call_personality (calls ! i))) = Num 0
      \<and> fst (run_calls calls eng) ! i = Inr bs \<and> b \<in> set bs"
  then have "assessThreat (call_state (calls ! i)) = Num 0" by simp
  with a show "action b \<noteq> ''flee''" using run_calls_not_flee[of i calls eng bs] by blast
next
  assume "selectOutcome cfg rnd (k + 1) (p_outcomes pat) ctx = (Inr ''flee'', k1)
        \<and> e_threat ctx = Num 0"
  then show "fst (generateEmergentBehavior cfg now rnd k pat ctx) = Inr None"
    using generate_suppressed[of cfg rnd k pat ctx k1 now] by simp
next
  show "length (fst (run_calls calls eng)) = length calls" by simp
qed


theorem flee_never_emitted_without_threat_witness:
  "\<exists>bs. fst (run_calls [kind_call, kind_call] new_engine) ! 1 = Inr bs
     \<and> map action bs = [''express_gratitude'']
     \<and> (\<forall>b \<in> set bs. action b \<noteq> ''flee'')
     \<and> fst (generateEmergentBehavior default_emergence_config 1000 kind_rnd 4 flee_pattern
               (buildContext 1000 kind_rnd calm_state (Some even_personality))) = Inr None"
proof -
  let ?ctx = "buildContext 1000 kind_rnd calm_state (Some even_personality)"
  have ev: "(case fst (run_calls [kind_call, kind_call] new_engine) ! 1 of
               Inr bs \<Rightarrow> map action bs | Inl e \<Rightarrow> [''error'']) = [''express_gratitude'']"
    by (simp add: emergence_defs calm_state_def even_personality_def kind_rnd_def new_engine_def
        kind_call_def Let_def)
  then obtain bs where bs: "fst (run_calls [kind_call, kind_call] new_engine) ! 1 = Inr bs"
    "map action bs = [''express_gratitude'']"
    by (cases "fst (run_calls [kind_call, kind_call] new_engine) ! 1") auto
  have th: "e_threat ?ctx = Num 0"
    by (simp add: assessThreat_def calm_state_def jor_def)
  have sel: "selectOutcome default_emergence_config kind_rnd (4 + 1) (p_outcomes flee_pattern) ?ctx
               = (Inr ''flee'', 6)"
    by (simp add: emergence_defs calm_state_def even_personality_def kind_rnd_def flee_pattern_def
        Let_def)
  have c1: "\<forall>b \<in> set bs. action b \<noteq> ''flee''"
    using flee_never_emitted_without_threat[of 1 "[kind_call, kind_call]" new_engine bs] bs(1) th
    by (auto simp add: kind_call_def)
  have c2: "fst (generateEmergentBehavior default_emergence_config 1000 kind_rnd 4 flee_pattern ?ctx)
              = Inr None"
    using flee_never_emitted_without_threat
      [of _ _ _ _ _ default_emergence_config kind_rnd 4 flee_pattern ?ctx 6 1000] sel th
    by blast
  show ?thesis by (intro exI[of _ bs] conjI) (rule bs(1), rule bs(2), rule c1, rule c2)
qed


end
